theory Spec2Isabelle
  imports Complex_Main
begin

section \<open>Numbers and vectors\<close>

text \<open>
  The program is JavaScript; its numbers are IEEE doubles. They are idealised here as
  \<^typ>\<open>real\<close>: \<open>Math.sqrt\<close> is \<^const>\<open>sqrt\<close>, \<open>Math.PI\<close> is \<^const>\<open>pi\<close>,
  \<open>Math.cos\<close> and \<open>Math.sin\<close> are \<^const>\<open>cos\<close> and \<^const>\<open>sin\<close>. The idealisation is
  faithful where the JavaScript evaluation stays finite; the places where the source could
  produce \<open>NaN\<close> or \<open>Infinity\<close> (a division by a zero orbit radius, a square root of a
  negative number) are excluded by an explicit hypothesis wherever a statement depends on
  them.

  \<open>Vector3\<close> is the three.js vector. The methods used by the program are modelled after
  three.js: \<open>lerp(v, a)\<close> moves each coordinate by \<open>(v - this) * a\<close>, \<open>distanceTo\<close> is the
  Euclidean distance, and \<open>normalize()\<close> divides by \<open>length() || 1\<close>, so the zero vector
  stays the zero vector.
\<close>

datatype vec3 = Vector3 (vx: real) (vy: real) (vz: real)

definition vadd :: "vec3 \<Rightarrow> vec3 \<Rightarrow> vec3" where
  "vadd a b = Vector3 (vx a + vx b) (vy a + vy b) (vz a + vz b)"

definition vsub :: "vec3 \<Rightarrow> vec3 \<Rightarrow> vec3" where
  "vsub a b = Vector3 (vx a - vx b) (vy a - vy b) (vz a - vz b)"

definition multiplyScalar :: "vec3 \<Rightarrow> real \<Rightarrow> vec3" where
  "multiplyScalar a s = Vector3 (vx a * s) (vy a * s) (vz a * s)"

definition vlength :: "vec3 \<Rightarrow> real" where
  "vlength a = sqrt (vx a * vx a + vy a * vy a + vz a * vz a)"

definition normalize :: "vec3 \<Rightarrow> vec3" where
  "normalize a = multiplyScalar a (1 / (if vlength a = 0 then 1 else vlength a))"

definition lerp :: "vec3 \<Rightarrow> vec3 \<Rightarrow> real \<Rightarrow> vec3" where
  "lerp a v alpha =
     Vector3 (vx a + (vx v - vx a) * alpha)
             (vy a + (vy v - vy a) * alpha)
             (vz a + (vz v - vz a) * alpha)"

definition distanceTo :: "vec3 \<Rightarrow> vec3 \<Rightarrow> real" where
  "distanceTo a v = vlength (vsub a v)"

section \<open>The body catalog\<close>

text \<open>
  A catalog entry (\<open>PlanetData\<close> of \<open>types.ts\<close>), reduced to the fields the orbital
  updater and the camera controller read. \<open>PlanetsUpdater\<close> accepts the position either
  as an array or as an object with an \<open>x\<close> field, so both shapes are kept.
\<close>

datatype planet_position = ArrayPosition real real real | VectorPosition vec3

record planet =
  name :: string
  position :: planet_position
  radius :: real
  orbitSpeed :: real
  isSun :: bool

section \<open>The orbital updater (PlanetsUpdater.js)\<close>

type_synonym progress_map = "string \<rightharpoonup> real"

definition ORBIT_SPEED_FACTOR :: real where
  "ORBIT_SPEED_FACTOR = 50"

text \<open>\<open>Array.isArray(planet.position) ? planet.position[0] : planet.position.x\<close>\<close>

definition distanceFromSun :: "planet \<Rightarrow> real" where
  "distanceFromSun p =
     (case position p of ArrayPosition a b c \<Rightarrow> a | VectorPosition v \<Rightarrow> vx v)"

text \<open>\<open>Math.sqrt(1 / Math.pow(distanceFromSun, 3))\<close>\<close>

definition keplerFactor :: "planet \<Rightarrow> real" where
  "keplerFactor p = sqrt (1 / distanceFromSun p ^ 3)"

definition orbitSpeedRadians :: "planet \<Rightarrow> real \<Rightarrow> real" where
  "orbitSpeedRadians p speedFactor =
     ((orbitSpeed p * ORBIT_SPEED_FACTOR * keplerFactor p) / 360) * (2 * pi) * speedFactor"

text \<open>\<open>prevOrbitProgress[planet.name] || 0\<close>: a missing entry reads as 0.\<close>

definition prevOrZero :: "progress_map \<Rightarrow> string \<Rightarrow> real" where
  "prevOrZero prevOrbitProgress n = (case prevOrbitProgress n of None \<Rightarrow> 0 | Some v \<Rightarrow> v)"

definition newValue :: "progress_map \<Rightarrow> real \<Rightarrow> real \<Rightarrow> planet \<Rightarrow> real" where
  "newValue prevOrbitProgress speedFactor deltaTime p =
     prevOrZero prevOrbitProgress (name p) + orbitSpeedRadians p speedFactor * deltaTime"

text \<open>
  The two locals of the state updater, \<open>nextProgress\<close> (a copy of the previous map) and
  \<open>hasChanges\<close>, and the body of \<open>planets.forEach\<close>. A comparison \<open>!==\<close> of a missing
  entry with a number is true.
\<close>

record locals =
  nextProgress :: progress_map
  hasChanges :: bool

definition forEachBody :: "progress_map \<Rightarrow> real \<Rightarrow> real \<Rightarrow> planet \<Rightarrow> locals \<Rightarrow> locals" where
  "forEachBody prevOrbitProgress speedFactor deltaTime p st =
     (if isSun p then
        (if nextProgress st (name p) \<noteq> Some 0
         then \<lparr>nextProgress = (nextProgress st)(name p \<mapsto> 0), hasChanges = True\<rparr>
         else st)
      else
        (let v = newValue prevOrbitProgress speedFactor deltaTime p in
         if nextProgress st (name p) \<noteq> Some v
         then \<lparr>nextProgress = (nextProgress st)(name p \<mapsto> v), hasChanges = True\<rparr>
         else st))"

definition forEachPlanet :: "planet list \<Rightarrow> progress_map \<Rightarrow> real \<Rightarrow> real \<Rightarrow> locals" where
  "forEachPlanet planets prevOrbitProgress speedFactor deltaTime =
     fold (forEachBody prevOrbitProgress speedFactor deltaTime) planets
       \<lparr>nextProgress = prevOrbitProgress, hasChanges = False\<rparr>"

text \<open>
  Object identity. The progress maps are JavaScript objects held in React state; whether
  the updater hands back the previous object or a new one is observable. The store maps
  addresses to objects, \<open>nextAddr\<close> is the next unused address, and \<open>current\<close> is the
  address held by the React state \<open>planetOrbitProgress\<close>. \<open>lastElapsedTime\<close> is the
  component's ref \<open>lastElapsedTimeRef\<close>.
\<close>

record updater_state =
  objects :: "nat \<Rightarrow> progress_map"
  nextAddr :: nat
  current :: nat
  lastElapsedTime :: real

definition content :: "updater_state \<Rightarrow> progress_map" where
  "content s = objects s (current s)"

text \<open>
  \<open>setPlanetOrbitProgress(prev => ...)\<close>: the spread \<open>{ ...prevOrbitProgress }\<close> allocates
  a new object, the loop fills it, and the state becomes
  \<open>hasChanges ? nextProgress : prevOrbitProgress\<close>.
\<close>

definition setPlanetOrbitProgress :: "planet list \<Rightarrow> real \<Rightarrow> real \<Rightarrow> updater_state \<Rightarrow> updater_state" where
  "setPlanetOrbitProgress planets speedFactor deltaTime s =
     (let prevOrbitProgress = objects s (current s);
          a = nextAddr s;
          st = forEachPlanet planets prevOrbitProgress speedFactor deltaTime
      in s\<lparr>objects := (objects s)(a := nextProgress st),
            nextAddr := Suc a,
            current := (if hasChanges st then a else current s)\<rparr>)"

text \<open>
  One frame of \<open>PlanetsUpdater\<close>: the clock is read, \<open>deltaTime\<close> is the difference to
  the previous reading, and the progress state is updated.
\<close>

definition useFrame :: "planet list \<Rightarrow> real \<times> real \<Rightarrow> updater_state \<Rightarrow> updater_state" where
  "useFrame planets tick s =
     (let elapsedTime = fst tick;
          speedFactor = snd tick;
          deltaTime = elapsedTime - lastElapsedTime s
      in setPlanetOrbitProgress planets speedFactor deltaTime (s\<lparr>lastElapsedTime := elapsedTime\<rparr>))"

definition frames :: "planet list \<Rightarrow> (real \<times> real) list \<Rightarrow> updater_state \<Rightarrow> updater_state" where
  "frames planets ticks s = fold (useFrame planets) ticks s"

text \<open>
  The initial React state of \<open>SolarSystem.js\<close>:
  \<open>planetsData.reduce((acc, planet) => { acc[planet.name] = 0; return acc; }, {})\<close>.
\<close>

definition initialProgress :: "planet list \<Rightarrow> progress_map" where
  "initialProgress planets = fold (\<lambda>p acc. acc(name p \<mapsto> 0)) planets Map.empty"

definition initialState :: "planet list \<Rightarrow> updater_state" where
  "initialState planets =
     \<lparr>objects = (\<lambda>a. Map.empty)(0 := initialProgress planets),
      nextAddr = 1, current = 0, lastElapsedTime = 0\<rparr>"

text \<open>
  The position a planet is rendered at and registers in the position registry
  (\<open>Planets.js\<close>): \<open>orbitRadius = position.x\<close>, \<open>x = cos(orbitProgress) * orbitRadius\<close>,
  \<open>z = sin(orbitProgress) * orbitRadius\<close>, \<open>setPlanetPosition(name, [x, 0, z])\<close>. Unlike
  the updater, \<open>Planets.js\<close> reads \<open>position.x\<close> only; on an array that field is
  undefined and no position results.
\<close>

definition planetPosition :: "planet \<Rightarrow> real \<Rightarrow> vec3 option" where
  "planetPosition p orbitProgress =
     (case position p of
        ArrayPosition a b c \<Rightarrow> None
      | VectorPosition v \<Rightarrow>
          Some (Vector3 (cos orbitProgress * vx v) 0 (sin orbitProgress * vx v)))"

text \<open>
  The catalogs on which the real-number model agrees with the JavaScript arithmetic and on
  which a name identifies a body: names are unique and every body that is not the star has
  a positive orbit radius.
\<close>

definition wellFormed :: "planet list \<Rightarrow> bool" where
  "wellFormed planets \<longleftrightarrow>
     distinct (map name planets) \<and> (\<forall>p \<in> set planets. \<not> isSun p \<longrightarrow> 0 < distanceFromSun p)"

text \<open>
  The sequence of \<open>(deltaTime, speedFactor)\<close> pairs that a sequence of frames feeds to the
  updater, starting from the clock reading \<open>lastTime\<close>.
\<close>

fun deltas :: "real \<Rightarrow> (real \<times> real) list \<Rightarrow> (real \<times> real) list" where
  "deltas lastTime [] = []"
| "deltas lastTime (tick # ticks) = (fst tick - lastTime, snd tick) # deltas (fst tick) ticks"

text \<open>The progress of a body as every reader takes it from the map, and its change over a frame.\<close>

definition progressIncrement :: "planet list \<Rightarrow> real \<times> real \<Rightarrow> updater_state \<Rightarrow> planet \<Rightarrow> real" where
  "progressIncrement planets tick s p =
     prevOrZero (content (useFrame planets tick s)) (name p) - prevOrZero (content s) (name p)"

section \<open>Selection and the position registry\<close>

text \<open>
  \<open>CelestialSelection = PlanetData | MoonSelection | null\<close> (\<open>types.ts\<close>). A planet
  selection is the catalog entry itself; a moon selection carries \<open>isMoon: true\<close> and an
  optional world position frozen when the moon was clicked (\<open>Moons.js\<close>). The radius of a
  moon is taken as present. The controller reads the \<open>position\<close> of a selection only
  behind \<open>isMoon\<close>, so a planet selection has none to offer.
\<close>

record moon_selection =
  moonName :: string
  moonRadius :: real
  parentPlanet :: string
  moonPosition :: "vec3 option"

datatype selection = PlanetSelection planet | MoonSelection moon_selection

definition selName :: "selection \<Rightarrow> string" where
  "selName sel = (case sel of PlanetSelection p \<Rightarrow> name p | MoonSelection m \<Rightarrow> moonName m)"

definition selRadius :: "selection \<Rightarrow> real" where
  "selRadius sel = (case sel of PlanetSelection p \<Rightarrow> radius p | MoonSelection m \<Rightarrow> moonRadius m)"

definition selIsSun :: "selection \<Rightarrow> bool" where
  "selIsSun sel = (case sel of PlanetSelection p \<Rightarrow> isSun p | MoonSelection m \<Rightarrow> False)"

definition selIsMoon :: "selection \<Rightarrow> bool" where
  "selIsMoon sel = (case sel of PlanetSelection p \<Rightarrow> False | MoonSelection m \<Rightarrow> True)"

definition selPosition :: "selection \<Rightarrow> vec3 option" where
  "selPosition sel = (case sel of PlanetSelection p \<Rightarrow> None | MoonSelection m \<Rightarrow> moonPosition m)"

text \<open>\<open>planetPositions\<close>: body name to the position last registered by its \<open>Planet\<close> component.\<close>

type_synonym registry = "string \<rightharpoonup> vec3"

definition getPlanetPosition :: "selection option \<Rightarrow> registry \<Rightarrow> vec3 option" where
  "getPlanetPosition selectedPlanet planetPositions =
     (case selectedPlanet of
        None \<Rightarrow> None
      | Some sel \<Rightarrow>
          if selIsSun sel then Some (Vector3 0 0 0)
          else if selIsMoon sel \<and> selPosition sel \<noteq> None then selPosition sel
          else planetPositions (selName sel))"

section \<open>The camera controller (CameraController.js)\<close>

datatype camera_state = INTRO_ANIMATION | FREE | ZOOMING_IN | DETAIL_VIEW | MOVING_TO_HOME

definition LERP_FACTOR :: real where
  "LERP_FACTOR = 0.015"

definition POSITION_EPSILON :: real where
  "POSITION_EPSILON = 0.1"

definition FAST_LERP_FACTOR :: real where
  "FAST_LERP_FACTOR = 0.04"

definition HOME_POSITION :: vec3 where
  "HOME_POSITION = Vector3 11 1 1"

text \<open>
  The tables \<open>DISTANCE_FACTORS\<close>. The source's fields \<open>MIN\<close> and \<open>MAX\<close> are named
  \<open>MIN_FACTOR\<close> and \<open>MAX_FACTOR\<close> here.
\<close>

record min_max =
  MIN_FACTOR :: real
  MAX_FACTOR :: real

record planet_factors = min_max +
  VERTICAL_OFFSET :: real
  DISTANCE_FACTOR :: real

record sun_factors = min_max +
  OFFSET :: vec3
  SCALE :: real

definition SUN :: sun_factors where
  "SUN = \<lparr>MIN_FACTOR = 1.5, MAX_FACTOR = 10, OFFSET = Vector3 8 4 6, SCALE = 0.4\<rparr>"

definition JUPITER :: planet_factors where
  "JUPITER = \<lparr>MIN_FACTOR = 1.2, MAX_FACTOR = 5, VERTICAL_OFFSET = 2.0, DISTANCE_FACTOR = 5\<rparr>"

definition DEFAULT_PLANET :: planet_factors where
  "DEFAULT_PLANET = \<lparr>MIN_FACTOR = 1.2, MAX_FACTOR = 3, VERTICAL_OFFSET = 1.5, DISTANCE_FACTOR = 3\<rparr>"

text \<open>The \<open>config\<close> chosen in \<open>calculateCameraOffset\<close>: vertical offset and distance factor.\<close>

definition offsetConfig :: "selection \<Rightarrow> real \<times> real" where
  "offsetConfig sel =
     (if selIsMoon sel then (0.3, 8)
      else if selName sel = ''Jupiter'' then (VERTICAL_OFFSET JUPITER, DISTANCE_FACTOR JUPITER)
      else (VERTICAL_OFFSET DEFAULT_PLANET, DISTANCE_FACTOR DEFAULT_PLANET))"

definition calculateCameraOffset :: "vec3 \<Rightarrow> selection \<Rightarrow> vec3" where
  "calculateCameraOffset planetPos sel =
     (let sunDirection = normalize (vsub (Vector3 0 0 0) planetPos);
          config = offsetConfig sel
      in multiplyScalar
           (normalize
              (vadd (multiplyScalar sunDirection (- 1))
                    (multiplyScalar (normalize (Vector3 0.3 0.7 0.2)) (fst config))))
           (selRadius sel * snd config))"

text \<open>The \<open>distanceConfig\<close> chosen in the \<open>DETAIL_VIEW\<close> case.\<close>

definition distanceConfig :: "selection \<Rightarrow> min_max" where
  "distanceConfig sel =
     (if selIsSun sel then \<lparr>MIN_FACTOR = MIN_FACTOR SUN, MAX_FACTOR = MAX_FACTOR SUN\<rparr>
      else if selIsMoon sel then \<lparr>MIN_FACTOR = 1.5, MAX_FACTOR = 15\<rparr>
      else if selName sel = ''Jupiter'' then \<lparr>MIN_FACTOR = MIN_FACTOR JUPITER, MAX_FACTOR = MAX_FACTOR JUPITER\<rparr>
      else \<lparr>MIN_FACTOR = MIN_FACTOR DEFAULT_PLANET, MAX_FACTOR = MAX_FACTOR DEFAULT_PLANET\<rparr>)"

text \<open>
  The orbit controls (drei's \<open>OrbitControls\<close>) as far as the controller writes them; the
  maximal distance may be \<open>Infinity\<close>. \<open>controls.update()\<close> belongs to three.js and is
  not modelled. The camera is its position and the point last passed to \<open>camera.lookAt\<close>.
  The frame callback calls \<open>updateCameraState\<close> only once the controls exist; the model
  describes those frames.
\<close>

datatype distance_limit = Finite real | Infinity

record orbit_controls =
  enabled :: bool
  target :: vec3
  minDistance :: real
  maxDistance :: distance_limit

record camera_world =
  cameraState :: camera_state
  cameraPosition :: vec3
  lookAt :: vec3
  invisibleTarget :: vec3
  introAnimationCompleted :: bool
  controls :: orbit_controls

definition caseFREE :: "camera_world \<Rightarrow> camera_world" where
  "caseFREE w = w\<lparr>controls := (controls w)\<lparr>enabled := True, maxDistance := Infinity\<rparr>\<rparr>"

definition caseDETAIL_VIEW :: "selection option \<Rightarrow> registry \<Rightarrow> camera_world \<Rightarrow> camera_world" where
  "caseDETAIL_VIEW selectedPlanet planetPositions w =
     (case selectedPlanet of
        None \<Rightarrow> w
      | Some sel \<Rightarrow>
          (case getPlanetPosition selectedPlanet planetPositions of
             None \<Rightarrow> w
           | Some planetPos \<Rightarrow>
               w\<lparr>controls := (controls w)
                    \<lparr>enabled := True,
                     target := planetPos,
                     minDistance := selRadius sel * MIN_FACTOR (distanceConfig sel),
                     maxDistance := Finite (selRadius sel * MAX_FACTOR (distanceConfig sel))\<rparr>\<rparr>))"

definition caseINTRO_ANIMATION :: "camera_world \<Rightarrow> camera_world" where
  "caseINTRO_ANIMATION w =
     (if \<not> introAnimationCompleted w then
        (let w1 = w\<lparr>controls := (controls w)\<lparr>enabled := False\<rparr>,
                    cameraPosition := lerp (cameraPosition w) HOME_POSITION 0.015,
                    lookAt := invisibleTarget w\<rparr>
         in if distanceTo (cameraPosition w1) HOME_POSITION < 0.01
            then w1\<lparr>introAnimationCompleted := True,
                     cameraPosition := HOME_POSITION,
                     cameraState := FREE\<rparr>
            else w1)
      else w)"

definition caseMOVING_TO_HOME :: "camera_world \<Rightarrow> camera_world" where
  "caseMOVING_TO_HOME w =
     (let w1 = w\<lparr>controls := (controls w)\<lparr>enabled := False\<rparr>,
                 cameraPosition := lerp (cameraPosition w) HOME_POSITION LERP_FACTOR,
                 invisibleTarget := lerp (invisibleTarget w) (Vector3 0 0 0) LERP_FACTOR\<rparr>;
          w2 = w1\<lparr>lookAt := invisibleTarget w1\<rparr>
      in if distanceTo (cameraPosition w2) HOME_POSITION < POSITION_EPSILON \<and>
            distanceTo (invisibleTarget w2) (Vector3 0 0 0) < POSITION_EPSILON
         then w2\<lparr>cameraPosition := HOME_POSITION,
                  invisibleTarget := Vector3 0 0 0,
                  controls := (controls w2)\<lparr>target := Vector3 0 0 0, maxDistance := Infinity\<rparr>,
                  cameraState := FREE\<rparr>
         else w2)"

text \<open>The desired camera position of the \<open>ZOOMING_IN\<close> case.\<close>

definition targetPosition :: "selection \<Rightarrow> vec3 \<Rightarrow> vec3" where
  "targetPosition sel pos =
     (if selIsSun sel
      then vadd pos (multiplyScalar (OFFSET SUN) (selRadius sel * SCALE SUN))
      else vadd pos (calculateCameraOffset pos sel))"

definition caseZOOMING_IN :: "selection option \<Rightarrow> registry \<Rightarrow> camera_world \<Rightarrow> camera_world" where
  "caseZOOMING_IN selectedPlanet planetPositions w =
     (case selectedPlanet of
        None \<Rightarrow> w
      | Some sel \<Rightarrow>
          (case getPlanetPosition selectedPlanet planetPositions of
             None \<Rightarrow> w
           | Some pos \<Rightarrow>
               (let w1 = w\<lparr>controls := (controls w)\<lparr>enabled := False\<rparr>,
                           cameraPosition := lerp (cameraPosition w) (targetPosition sel pos) LERP_FACTOR,
                           invisibleTarget := lerp (invisibleTarget w) pos FAST_LERP_FACTOR\<rparr>;
                    w2 = w1\<lparr>lookAt := invisibleTarget w1\<rparr>;
                    reachedPosition =
                      (distanceTo (cameraPosition w2) (targetPosition sel pos)
                         < selRadius sel * POSITION_EPSILON);
                    reachedLookAt =
                      (distanceTo (invisibleTarget w2) pos < selRadius sel * POSITION_EPSILON)
                in if reachedPosition \<and> reachedLookAt
                   then w2\<lparr>controls := (controls w2)\<lparr>target := invisibleTarget w2\<rparr>,
                            cameraState := DETAIL_VIEW\<rparr>
                   else w2)))"

text \<open>The \<open>switch (state)\<close> of \<open>updateCameraState\<close>, called once per frame with the current state.\<close>

definition updateCameraState :: "selection option \<Rightarrow> registry \<Rightarrow> camera_world \<Rightarrow> camera_world" where
  "updateCameraState selectedPlanet planetPositions w =
     (case cameraState w of
        FREE \<Rightarrow> caseFREE w
      | DETAIL_VIEW \<Rightarrow> caseDETAIL_VIEW selectedPlanet planetPositions w
      | INTRO_ANIMATION \<Rightarrow> caseINTRO_ANIMATION w
      | MOVING_TO_HOME \<Rightarrow> caseMOVING_TO_HOME w
      | ZOOMING_IN \<Rightarrow> caseZOOMING_IN selectedPlanet planetPositions w)"

section \<open>The application state and its input handlers\<close>

text \<open>
  The React contexts: camera state, selection, position registry and speed control. The
  speed-control context is kept abstract (type \<open>'s\<close>); its operations are parameters of
  the handlers that call them.
\<close>

record 's app_state =
  camera :: camera_world
  selectedPlanet :: "selection option"
  planetPositions :: registry
  speedControl :: 's

text \<open>
  The frame callback of \<open>CameraController\<close>. The component reads the selection
  (\<open>const [selectedPlanet] = useSelectedPlanet()\<close>) and holds no setter for it.
\<close>

definition cameraFrame :: "'s app_state \<Rightarrow> 's app_state" where
  "cameraFrame app =
     app\<lparr>camera := updateCameraState (selectedPlanet app) (planetPositions app) (camera app)\<rparr>"

text \<open>\<open>goHome\<close> of \<open>KeyboardHandler.js\<close> (\<open>handleGoHome\<close> and \<open>handleExitView\<close> of \<open>ControlMenu.js\<close> have the same body).\<close>

definition goHome :: "('s \<Rightarrow> 's) \<Rightarrow> 's app_state \<Rightarrow> 's app_state" where
  "goHome restoreSpeedFactor app =
     app\<lparr>camera := (camera app)\<lparr>cameraState := MOVING_TO_HOME\<rparr>,
         selectedPlanet := None,
         speedControl := restoreSpeedFactor (speedControl app)\<rparr>"

text \<open>
  \<open>exitView\<close> of \<open>KeyboardHandler.js\<close> does the same behind its guard
  \<open>selectedPlanet && cameraState === 'DETAIL_VIEW'\<close>, and the tap branch of
  \<open>MobileGestureHandler\<close> behind \<open>cameraState === 'DETAIL_VIEW'\<close>.
\<close>

definition exitView :: "('s \<Rightarrow> 's) \<Rightarrow> 's app_state \<Rightarrow> 's app_state" where
  "exitView restoreSpeedFactor app =
     (if selectedPlanet app \<noteq> None \<and> cameraState (camera app) = DETAIL_VIEW
      then app\<lparr>camera := (camera app)\<lparr>cameraState := MOVING_TO_HOME\<rparr>,
               selectedPlanet := None,
               speedControl := restoreSpeedFactor (speedControl app)\<rparr>
      else app)"

definition handleTap :: "('s \<Rightarrow> 's) \<Rightarrow> 's app_state \<Rightarrow> 's app_state" where
  "handleTap restoreSpeedFactor app =
     (if cameraState (camera app) = DETAIL_VIEW
      then app\<lparr>camera := (camera app)\<lparr>cameraState := MOVING_TO_HOME\<rparr>,
               selectedPlanet := None,
               speedControl := restoreSpeedFactor (speedControl app)\<rparr>
      else app)"

text \<open>
  The handlers that select a body share one body: \<open>setSelectedPlanet(body)\<close>,
  \<open>overrideSpeedFactor()\<close>, \<open>setCameraState('ZOOMING_IN')\<close>. They are
  \<open>handlePlanetClick\<close> (\<open>Planets.js\<close>), \<open>handleSunClick\<close> (\<open>Sun.js\<close>),
  \<open>handleMoonClick\<close> (\<open>Moons.js\<close>), \<open>handleSelect\<close> (\<open>PlanetMenu.js\<close>),
  \<open>selectPlanetByIndex\<close> (\<open>KeyboardHandler.js\<close>) and the swipe branch of
  \<open>MobileGestureHandler\<close>; their guards decide only whether this body runs.
\<close>

definition selectBody :: "('s \<Rightarrow> 's) \<Rightarrow> selection \<Rightarrow> 's app_state \<Rightarrow> 's app_state" where
  "selectBody overrideSpeedFactor sel app =
     app\<lparr>selectedPlanet := Some sel,
         speedControl := overrideSpeedFactor (speedControl app),
         camera := (camera app)\<lparr>cameraState := ZOOMING_IN\<rparr>\<rparr>"

text \<open>
  The events that change the application state: a frame of the camera controller, the
  handlers above, a write to the position registry and a change of the speed control. The
  registry is written by the \<open>Planet\<close> components and the speed control by its own
  handlers; any new registry and any change of the speed context are admitted, so the
  runs below cover every sequence of calls the program can make.
\<close>

datatype 's event =
    Frame
  | GoHome
  | ExitView
  | Tap
  | SelectBody selection
  | RegistryWrite registry
  | SpeedChange "'s \<Rightarrow> 's"

fun step :: "('s \<Rightarrow> 's) \<Rightarrow> ('s \<Rightarrow> 's) \<Rightarrow> 's event \<Rightarrow> 's app_state \<Rightarrow> 's app_state" where
  "step overrideSpeedFactor restoreSpeedFactor Frame app = cameraFrame app"
| "step overrideSpeedFactor restoreSpeedFactor GoHome app = goHome restoreSpeedFactor app"
| "step overrideSpeedFactor restoreSpeedFactor ExitView app = exitView restoreSpeedFactor app"
| "step overrideSpeedFactor restoreSpeedFactor Tap app = handleTap restoreSpeedFactor app"
| "step overrideSpeedFactor restoreSpeedFactor (SelectBody sel) app =
     selectBody overrideSpeedFactor sel app"
| "step overrideSpeedFactor restoreSpeedFactor (RegistryWrite reg) app =
     app\<lparr>planetPositions := reg\<rparr>"
| "step overrideSpeedFactor restoreSpeedFactor (SpeedChange f) app =
     app\<lparr>speedControl := f (speedControl app)\<rparr>"

definition run :: "('s \<Rightarrow> 's) \<Rightarrow> ('s \<Rightarrow> 's) \<Rightarrow> 's event list \<Rightarrow> 's app_state \<Rightarrow> 's app_state" where
  "run overrideSpeedFactor restoreSpeedFactor events app =
     fold (step overrideSpeedFactor restoreSpeedFactor) events app"

text \<open>\<open>SpeedControl.js\<close>: the presets and the cycle action. \<open>findIndex\<close> answers \<open>-1\<close> when no element matches.\<close>

definition SPEED_PRESETS :: "real list" where
  "SPEED_PRESETS = [0, 1, 2, 5, 10]"

fun findIndex :: "('a \<Rightarrow> bool) \<Rightarrow> 'a list \<Rightarrow> int" where
  "findIndex P [] = - 1"
| "findIndex P (x # xs) =
     (if P x then 0 else (let i = findIndex P xs in if i = - 1 then - 1 else i + 1))"

definition isDisabled :: "camera_state \<Rightarrow> bool" where
  "isDisabled st \<longleftrightarrow> st = ZOOMING_IN \<or> st = DETAIL_VIEW"

definition handleCycleSpeed :: "('s \<Rightarrow> real) \<Rightarrow> (real \<Rightarrow> 's \<Rightarrow> 's) \<Rightarrow> 's app_state \<Rightarrow> 's app_state" where
  "handleCycleSpeed speedFactor setSpeedFactor app =
     (if \<not> isDisabled (cameraState (camera app)) then
        (let currentIndex =
               findIndex (\<lambda>speed. \<bar>speedFactor (speedControl app) - speed\<bar> < 0.1) SPEED_PRESETS;
             nextIndex = (currentIndex + 1) mod int (length SPEED_PRESETS)
         in app\<lparr>speedControl := setSpeedFactor (SPEED_PRESETS ! nat nextIndex) (speedControl app)\<rparr>)
      else app)"

section \<open>Scenario data\<close>

text \<open>The catalog of the specification's Scenario A: a star of radius 5 and Earth at orbit radius 8.\<close>

definition theSun :: planet where
  "theSun = \<lparr>name = ''Sun'', position = VectorPosition (Vector3 0 0 0), radius = 5,
             orbitSpeed = 0, isSun = True\<rparr>"

definition earth :: planet where
  "earth = \<lparr>name = ''Earth'', position = VectorPosition (Vector3 8 0 0), radius = 1,
            orbitSpeed = 1, isSun = False\<rparr>"

definition scenarioA :: "planet list" where
  "scenarioA = [theSun, earth]"

definition outerBody :: planet where
  "outerBody = \<lparr>name = ''Outer'', position = ArrayPosition 18 0 0, radius = 1,
                orbitSpeed = 1, isSun = False\<rparr>"

definition keplerPair :: "planet list" where
  "keplerPair = [theSun, earth, outerBody]"

text \<open>Two bodies of equal orbit speed 0 at orbit radii 4 and 9.\<close>

definition stalledInner :: planet where
  "stalledInner = \<lparr>name = ''Inner'', position = VectorPosition (Vector3 4 0 0), radius = 1,
                   orbitSpeed = 0, isSun = False\<rparr>"

definition stalledOuter :: planet where
  "stalledOuter = \<lparr>name = ''Outer'', position = VectorPosition (Vector3 9 0 0), radius = 1,
                   orbitSpeed = 0, isSun = False\<rparr>"

definition stalledPair :: "planet list" where
  "stalledPair = [theSun, stalledInner, stalledOuter]"

text \<open>
  A moon selection with a frozen world position, a registry that holds Earth only, and a
  camera resting at the home pose in a given state.
\<close>

definition moonSel :: selection where
  "moonSel = MoonSelection \<lparr>moonName = ''Moon'', moonRadius = 1, parentPlanet = ''Earth'',
                             moonPosition = Some (Vector3 9 0 0)\<rparr>"

definition earthRegistry :: registry where
  "earthRegistry = [''Earth'' \<mapsto> Vector3 8 0 0]"

definition worldAt :: "camera_state \<Rightarrow> camera_world" where
  "worldAt st =
     \<lparr>cameraState = st, cameraPosition = HOME_POSITION, lookAt = Vector3 0 0 0,
      invisibleTarget = Vector3 0 0 0, introAnimationCompleted = True,
      controls = \<lparr>enabled = False, target = Vector3 0 0 0, minDistance = 0,
                  maxDistance = Infinity\<rparr>\<rparr>"

definition appAt :: "camera_state \<Rightarrow> selection option \<Rightarrow> real app_state" where
  "appAt st sel =
     \<lparr>camera = worldAt st, selectedPlanet = sel, planetPositions = earthRegistry,
      speedControl = 1\<rparr>"

section \<open>Auxiliary notions for the proofs\<close>

text \<open>The value the loop body stores for a body: 0 for the star, \<open>newValue\<close> otherwise.\<close>

definition targetValue :: "progress_map \<Rightarrow> real \<Rightarrow> real \<Rightarrow> planet \<Rightarrow> real" where
  "targetValue prev sf dt p = (if isSun p then 0 else newValue prev sf dt p)"

text \<open>
  The invariant of the updater's state: the current object is allocated, every body of
  the catalog has an entry, and the star's entry is 0.
\<close>

definition settled :: "planet list \<Rightarrow> updater_state \<Rightarrow> bool" where
  "settled planets s \<longleftrightarrow>
     current s < nextAddr s \<and>
     (\<forall>p \<in> set planets. content s (name p) \<noteq> None) \<and>
     (\<forall>p \<in> set planets. isSun p \<longrightarrow> content s (name p) = Some 0)"

text \<open>
  The invariant of the application state: while the camera returns home, nothing is
  selected.
\<close>

definition homeboundCleared :: "'s app_state \<Rightarrow> bool" where
  "homeboundCleared app \<longleftrightarrow>
     (cameraState (camera app) = MOVING_TO_HOME \<longrightarrow> selectedPlanet app = None)"

section \<open>The loop of the orbital updater\<close>

lemma forEachBody_other:
  "n \<noteq> name p \<Longrightarrow> nextProgress (forEachBody prev sf dt p st) n = nextProgress st n"
  by (simp add: forEachBody_def Let_def)

lemma forEachBody_own:
  "nextProgress (forEachBody prev sf dt p st) (name p) = Some (targetValue prev sf dt p)"
  by (simp add: forEachBody_def Let_def targetValue_def)

lemma fold_forEachBody_other:
  "n \<notin> name ` set ps \<Longrightarrow>
   nextProgress (fold (forEachBody prev sf dt) ps st) n = nextProgress st n"
  by (induction ps arbitrary: st) (auto simp: forEachBody_other)

lemma fold_forEachBody_own:
  "distinct (map name ps) \<Longrightarrow> p \<in> set ps \<Longrightarrow>
   nextProgress (fold (forEachBody prev sf dt) ps st) (name p) = Some (targetValue prev sf dt p)"
proof (induction ps arbitrary: st)
  case Nil
  then show ?case by simp
next
  case (Cons q ps)
  show ?case
  proof (cases "p = q")
    case True
    with Cons.prems have "name p \<notin> name ` set ps" by auto
    then show ?thesis using True
      by (simp add: fold_forEachBody_other forEachBody_own)
  next
    case False
    with Cons show ?thesis by simp
  qed
qed

lemma fold_forEachBody_keeps_changes:
  "hasChanges st \<Longrightarrow> hasChanges (fold (forEachBody prev sf dt) ps st)"
  by (induction ps arbitrary: st) (auto simp: forEachBody_def Let_def)

lemma forEachBody_unchanged:
  "nextProgress st (name p) = Some (targetValue prev sf dt p) \<Longrightarrow> forEachBody prev sf dt p st = st"
  by (simp add: forEachBody_def Let_def targetValue_def)

lemma forEachBody_changed:
  "nextProgress st (name p) \<noteq> Some (targetValue prev sf dt p) \<Longrightarrow>
   hasChanges (forEachBody prev sf dt p st)"
  by (auto simp add: forEachBody_def Let_def targetValue_def split: if_splits)

lemma fold_forEachBody_hasChanges:
  "hasChanges (fold (forEachBody prev sf dt) ps st) \<longleftrightarrow>
   hasChanges st \<or> (\<exists>p \<in> set ps. nextProgress st (name p) \<noteq> Some (targetValue prev sf dt p))"
proof (induction ps arbitrary: st)
  case Nil
  then show ?case by simp
next
  case (Cons q ps)
  show ?case
  proof (cases "nextProgress st (name q) = Some (targetValue prev sf dt q)")
    case True
    then show ?thesis using Cons.IH [of st] by (auto simp: forEachBody_unchanged)
  next
    case False
    then have "hasChanges (fold (forEachBody prev sf dt) ps (forEachBody prev sf dt q st))"
      by (intro fold_forEachBody_keeps_changes forEachBody_changed)
    with False show ?thesis by auto
  qed
qed

lemma content_setPlanetOrbitProgress:
  "content (setPlanetOrbitProgress planets sf dt s) =
   nextProgress (forEachPlanet planets (content s) sf dt)"
proof (cases "hasChanges (forEachPlanet planets (content s) sf dt)")
  case True
  then show ?thesis by (simp add: content_def setPlanetOrbitProgress_def Let_def)
next
  case False
  then have "\<forall>p \<in> set planets. content s (name p) = Some (targetValue (content s) sf dt p)"
    by (simp add: forEachPlanet_def fold_forEachBody_hasChanges)
  then have "fold (forEachBody (content s) sf dt) planets st = st"
    if "nextProgress st = content s" for st
    using that by (induction planets arbitrary: st) (simp_all add: forEachBody_unchanged)
  then have "nextProgress (forEachPlanet planets (content s) sf dt) = content s"
    by (simp add: forEachPlanet_def)
  with False show ?thesis by (simp add: content_def setPlanetOrbitProgress_def Let_def)
qed

section \<open>Frames of the orbital updater\<close>

lemma content_useFrame:
  "content (useFrame planets tick s) =
   nextProgress (forEachPlanet planets (content s) (snd tick) (fst tick - lastElapsedTime s))"
proof -
  have "content (s\<lparr>lastElapsedTime := fst tick\<rparr>) = content s"
    by (simp add: content_def)
  then show ?thesis
    by (simp add: useFrame_def Let_def content_setPlanetOrbitProgress)
qed

lemma lastElapsedTime_useFrame: "lastElapsedTime (useFrame planets tick s) = fst tick"
  by (simp add: useFrame_def setPlanetOrbitProgress_def Let_def)

lemma nextAddr_useFrame: "nextAddr (useFrame planets tick s) = Suc (nextAddr s)"
  by (simp add: useFrame_def setPlanetOrbitProgress_def Let_def)

lemma current_useFrame:
  "current (useFrame planets tick s) =
   (if hasChanges (forEachPlanet planets (content s) (snd tick) (fst tick - lastElapsedTime s))
    then nextAddr s else current s)"
  by (simp add: useFrame_def setPlanetOrbitProgress_def Let_def content_def)

lemma objects_useFrame:
  "a \<noteq> nextAddr s \<Longrightarrow> objects (useFrame planets tick s) a = objects s a"
  by (simp add: useFrame_def setPlanetOrbitProgress_def Let_def)

lemma content_useFrame_entry:
  "distinct (map name planets) \<Longrightarrow> p \<in> set planets \<Longrightarrow>
   content (useFrame planets tick s) (name p) =
   Some (targetValue (content s) (snd tick) (fst tick - lastElapsedTime s) p)"
  by (simp add: content_useFrame forEachPlanet_def fold_forEachBody_own)

lemma content_useFrame_other:
  "n \<notin> name ` set planets \<Longrightarrow> content (useFrame planets tick s) n = content s n"
  by (simp add: content_useFrame forEachPlanet_def fold_forEachBody_other)

lemma hasChanges_forEachPlanet:
  "hasChanges (forEachPlanet planets prev sf dt) \<longleftrightarrow>
   (\<exists>p \<in> set planets. prev (name p) \<noteq> Some (targetValue prev sf dt p))"
  by (simp add: forEachPlanet_def fold_forEachBody_hasChanges)

lemma initialProgress_fold:
  "fold (\<lambda>p acc. acc(name p \<mapsto> 0)) ps acc n = (if n \<in> name ` set ps then Some (0::real) else acc n)"
  by (induction ps arbitrary: acc) auto

lemma initialProgress_entry: "p \<in> set planets \<Longrightarrow> initialProgress planets (name p) = Some 0"
  by (simp add: initialProgress_def initialProgress_fold)

lemma settled_initialState: "settled planets (initialState planets)"
  by (simp add: settled_def initialState_def content_def initialProgress_entry)

lemma settled_useFrame:
  assumes "distinct (map name planets)" and "settled planets s"
  shows "settled planets (useFrame planets tick s)"
proof -
  have "current (useFrame planets tick s) < nextAddr (useFrame planets tick s)"
    using assms(2) by (simp add: current_useFrame nextAddr_useFrame settled_def)
  moreover have "\<forall>p \<in> set planets. content (useFrame planets tick s) (name p) \<noteq> None"
    using assms(1) by (simp add: content_useFrame_entry)
  moreover have "\<forall>p \<in> set planets. isSun p \<longrightarrow> content (useFrame planets tick s) (name p) = Some 0"
    using assms(1) by (simp add: content_useFrame_entry targetValue_def)
  ultimately show ?thesis by (simp add: settled_def)
qed

lemma settled_frames:
  "distinct (map name planets) \<Longrightarrow> settled planets s \<Longrightarrow> settled planets (frames planets ticks s)"
  unfolding frames_def
  by (induction ticks arbitrary: s) (simp_all add: settled_useFrame)

lemma frames_Cons: "frames planets (tick # ticks) s = frames planets ticks (useFrame planets tick s)"
  by (simp add: frames_def)

lemma content_frames_deltas:
  "content s1 = content s2 \<Longrightarrow>
   deltas (lastElapsedTime s1) ticks1 = deltas (lastElapsedTime s2) ticks2 \<Longrightarrow>
   content (frames planets ticks1 s1) = content (frames planets ticks2 s2)"
proof (induction ticks1 arbitrary: ticks2 s1 s2)
  case Nil
  then have "ticks2 = []" by (cases ticks2) simp_all
  with Nil show ?case by (simp add: frames_def)
next
  case (Cons tick ticks1)
  then obtain tick' ticks2' where t2: "ticks2 = tick' # ticks2'"
    by (cases ticks2) simp_all
  from Cons.prems(2) have dt: "fst tick - lastElapsedTime s1 = fst tick' - lastElapsedTime s2"
    and sf: "snd tick = snd tick'"
    and rest: "deltas (fst tick) ticks1 = deltas (fst tick') ticks2'"
    unfolding t2 by simp_all
  have "content (useFrame planets tick s1) = content (useFrame planets tick' s2)"
    using Cons.prems(1) dt sf by (simp add: content_useFrame)
  moreover have "deltas (lastElapsedTime (useFrame planets tick s1)) ticks1 =
      deltas (lastElapsedTime (useFrame planets tick' s2)) ticks2'"
    using rest by (simp add: lastElapsedTime_useFrame)
  ultimately have "content (frames planets ticks1 (useFrame planets tick s1)) =
      content (frames planets ticks2' (useFrame planets tick' s2))"
    by (rule Cons.IH)
  then show ?case by (simp add: t2 frames_Cons)
qed

section \<open>Arithmetic of the Kepler factor\<close>

lemma kepler_powr:
  assumes "0 < (r::real)"
  shows "sqrt (1 / r ^ 3) = r powr (- 3 / 2)"
proof -
  have "1 / r ^ 3 = r powr (- 3)"
    using assms by (simp add: powr_minus_divide powr_numeral)
  then have "sqrt (1 / r ^ 3) = (r powr (- 3)) powr (1 / 2)"
    by (simp add: powr_half_sqrt)
  also have "\<dots> = r powr (- 3 / 2)"
    by (simp add: powr_powr)
  finally show ?thesis .
qed

lemma progressIncrement_eq:
  assumes "distinct (map name planets)" and "p \<in> set planets" and "\<not> isSun p"
  shows "progressIncrement planets tick s p =
         orbitSpeedRadians p (snd tick) * (fst tick - lastElapsedTime s)"
  using assms
  by (simp add: progressIncrement_def content_useFrame_entry targetValue_def newValue_def
      prevOrZero_def)

lemma keplerFactor_antimono:
  assumes "0 < distanceFromSun a" and "distanceFromSun a < distanceFromSun b"
  shows "keplerFactor b < keplerFactor a"
proof -
  have "distanceFromSun a ^ 3 < distanceFromSun b ^ 3"
    using assms by (intro power_strict_mono) simp_all
  moreover have "0 < distanceFromSun a ^ 3" using assms(1) by simp
  ultimately have "1 / distanceFromSun b ^ 3 < 1 / distanceFromSun a ^ 3"
    by (simp add: frac_less2)
  then show ?thesis by (simp add: keplerFactor_def)
qed

lemma orbitSpeedRadians_antimono:
  assumes "0 < distanceFromSun a" and "distanceFromSun a < distanceFromSun b"
    and "orbitSpeed a = orbitSpeed b" and "0 < orbitSpeed a" and "0 < sf"
  shows "orbitSpeedRadians b sf < orbitSpeedRadians a sf"
proof -
  have k: "keplerFactor b < keplerFactor a"
    using assms(1,2) by (rule keplerFactor_antimono)
  have "0 < orbitSpeed a * 50 / 360 * (2 * pi) * sf"
    using assms(4,5) by simp
  then have "orbitSpeed a * 50 / 360 * (2 * pi) * sf * keplerFactor b
      < orbitSpeed a * 50 / 360 * (2 * pi) * sf * keplerFactor a"
    using k by (simp only: mult_less_cancel_left_pos)
  then show ?thesis
    using assms(3) by (simp add: orbitSpeedRadians_def ORBIT_SPEED_FACTOR_def mult_ac)
qed

section \<open>Bounds for the trigonometric functions and for pi\<close>

lemma cos_lower_bound: "1 - x\<^sup>2 / 2 \<le> cos (x::real)"
proof -
  have "\<bar>sin (x / 2)\<bar> \<le> \<bar>x / 2\<bar>" by (rule abs_sin_x_le_abs_x)
  then have "(sin (x / 2))\<^sup>2 \<le> (x / 2)\<^sup>2" by (simp only: abs_le_square_iff)
  moreover have "cos x = 1 - 2 * (sin (x / 2))\<^sup>2"
    using cos_double_sin [of "x / 2"] by simp
  ultimately show ?thesis by (simp add: power2_eq_square)
qed

lemma sin_lower_bound:
  assumes "0 \<le> (x::real)"
  shows "x - x ^ 3 / 6 \<le> sin x"
proof -
  let ?f = "\<lambda>u::real. sin u - u + u ^ 3 / 6"
  have "?f 0 \<le> ?f x"
  proof (rule DERIV_nonneg_imp_nondecreasing [OF assms])
    fix u :: real
    assume "0 \<le> u" "u \<le> x"
    have "(?f has_real_derivative (cos u - 1 + u\<^sup>2 / 2)) (at u)"
      by (auto intro!: derivative_eq_intros simp: power2_eq_square)
    moreover have "0 \<le> cos u - 1 + u\<^sup>2 / 2"
      using cos_lower_bound [of u] by simp
    ultimately show "\<exists>y. (?f has_real_derivative y) (at u) \<and> 0 \<le> y" by blast
  qed
  then show ?thesis by simp
qed

lemma cos_upper_bound:
  assumes "0 \<le> (x::real)"
  shows "cos x \<le> 1 - x\<^sup>2 / 2 + x ^ 4 / 24"
proof -
  let ?f = "\<lambda>u::real. 1 - u\<^sup>2 / 2 + u ^ 4 / 24 - cos u"
  have "?f 0 \<le> ?f x"
  proof (rule DERIV_nonneg_imp_nondecreasing [OF assms])
    fix u :: real
    assume "0 \<le> u" "u \<le> x"
    have "(?f has_real_derivative (sin u - u + u ^ 3 / 6)) (at u)"
      by (auto intro!: derivative_eq_intros simp: power3_eq_cube)
    moreover have "0 \<le> sin u - u + u ^ 3 / 6"
      using sin_lower_bound [OF \<open>0 \<le> u\<close>] by simp
    ultimately show "\<exists>y. (?f has_real_derivative y) (at u) \<and> 0 \<le> y" by blast
  qed
  then show ?thesis by simp
qed

lemma sin_upper_bound:
  assumes "0 \<le> (x::real)"
  shows "sin x \<le> x - x ^ 3 / 6 + x ^ 5 / 120"
proof -
  let ?f = "\<lambda>u::real. u - u ^ 3 / 6 + u ^ 5 / 120 - sin u"
  have "?f 0 \<le> ?f x"
  proof (rule DERIV_nonneg_imp_nondecreasing [OF assms])
    fix u :: real
    assume "0 \<le> u" "u \<le> x"
    have "(?f has_real_derivative (1 - u\<^sup>2 / 2 + u ^ 4 / 24 - cos u)) (at u)"
      by (auto intro!: derivative_eq_intros simp: power2_eq_square)
    moreover have "0 \<le> 1 - u\<^sup>2 / 2 + u ^ 4 / 24 - cos u"
      using cos_upper_bound [OF \<open>0 \<le> u\<close>] by simp
    ultimately show "\<exists>y. (?f has_real_derivative y) (at u) \<and> 0 \<le> y" by blast
  qed
  then show ?thesis by simp
qed

lemma pi_bounds: "314 / 100 < pi" "pi < 315 / 100"
proof -
  have half: "sin (pi / 6) = 1 / 2" by (rule sin_30)
  show "314 / 100 < pi"
  proof (rule ccontr)
    assume "\<not> 314 / 100 < pi"
    then have le: "pi / 6 \<le> 314 / 600" by simp
    have "sin (pi / 6) \<le> sin (314 / 600 :: real)"
      using le pi_ge_two by (intro sin_monotone_2pi_le) simp_all
    moreover have "sin (314 / 600 :: real) \<le> 314 / 600 - (314 / 600) ^ 3 / 6 + (314 / 600) ^ 5 / 120"
      by (rule sin_upper_bound) simp
    moreover have "(314 / 600 - (314 / 600) ^ 3 / 6 + (314 / 600) ^ 5 / 120 :: real) < 1 / 2"
      by (simp add: power3_eq_cube power_numeral_reduce)
    ultimately show False using half by linarith
  qed
  show "pi < 315 / 100"
  proof (rule ccontr)
    assume "\<not> pi < 315 / 100"
    then have le: "315 / 600 \<le> pi / 6" by simp
    have "sin (315 / 600 :: real) \<le> sin (pi / 6)"
      using le pi_ge_two by (intro sin_monotone_2pi_le) simp_all
    moreover have "315 / 600 - (315 / 600) ^ 3 / 6 \<le> sin (315 / 600 :: real)"
      by (rule sin_lower_bound) simp
    moreover have "(1 / 2 :: real) < 315 / 600 - (315 / 600) ^ 3 / 6"
      by (simp add: power3_eq_cube)
    ultimately show False using half by linarith
  qed
qed

lemma sqrt2_tight: "14142 / 10000 < sqrt 2" "sqrt 2 < 14143 / 10000"
proof -
  show "14142 / 10000 < sqrt 2" by (rule real_less_rsqrt) (simp add: power2_eq_square)
  show "sqrt 2 < 14143 / 10000" by (rule real_less_lsqrt) (simp_all add: power2_eq_square)
qed

lemma small_angle_tight:
  assumes "385 / 10000 < (d::real)" and "d < 387 / 10000"
  shows "7994 / 1000 < cos d * 8" and "cos d * 8 < 79941 / 10000"
    and "307 / 1000 < sin d * 8" and "sin d * 8 < 31 / 100"
proof -
  have pos: "0 \<le> d" using assms(1) by simp
  have p2u: "d\<^sup>2 < (387 / 10000)\<^sup>2"
    using assms pos by (intro power_strict_mono) simp_all
  have p2l: "(385 / 10000)\<^sup>2 < d\<^sup>2"
    using assms by (intro power_strict_mono) simp_all
  have p3u: "d ^ 3 < (387 / 10000) ^ 3"
    using assms pos by (intro power_strict_mono) simp_all
  have p4u: "d ^ 4 < (387 / 10000) ^ 4"
    using assms pos by (intro power_strict_mono) simp_all
  have c1: "1 - d\<^sup>2 / 2 \<le> cos d" by (rule cos_lower_bound)
  have c2: "cos d \<le> 1 - d\<^sup>2 / 2 + d ^ 4 / 24" using pos by (rule cos_upper_bound)
  have s1: "d - d ^ 3 / 6 \<le> sin d" using pos by (rule sin_lower_bound)
  have s2: "sin d \<le> d" using pos by (rule sin_x_le_x)
  have n2u: "((387 / 10000)\<^sup>2 :: real) = 149769 / 100000000" by (simp add: power2_eq_square)
  have n2l: "((385 / 10000)\<^sup>2 :: real) = 148225 / 100000000" by (simp add: power2_eq_square)
  have n3u: "((387 / 10000) ^ 3 :: real) < 58 / 1000000" by (simp add: power3_eq_cube)
  have n4u: "((387 / 10000) ^ 4 :: real) < 3 / 1000000" by (simp add: power4_eq_xxxx)
  show "7994 / 1000 < cos d * 8" using c1 p2u n2u by linarith
  show "cos d * 8 < 79941 / 10000" using c2 p2l n2l p4u n4u by linarith
  show "307 / 1000 < sin d * 8" using s1 p3u n3u assms(1) by linarith
  show "sin d * 8 < 31 / 100" using s2 assms(2) by linarith
qed

section \<open>The scenario catalogs\<close>

lemma sqrt_inverse_512: "sqrt (1 / 512) = 1 / (16 * sqrt 2)"
proof -
  have "sqrt (512::real) = sqrt (16\<^sup>2 * 2)" by simp
  also have "\<dots> = 16 * sqrt 2" by (simp only: real_sqrt_mult real_sqrt_abs abs_numeral)
  finally show ?thesis by (simp add: real_sqrt_divide)
qed

lemma wellFormed_scenarioA: "wellFormed scenarioA"
  by (simp add: wellFormed_def scenarioA_def theSun_def earth_def distanceFromSun_def)

lemma earth_facts:
  "earth \<in> set scenarioA" "\<not> isSun earth" "distanceFromSun earth = 8" "orbitSpeed earth = 1"
  "name earth = ''Earth''"
  by (simp_all add: scenarioA_def earth_def distanceFromSun_def)

lemma lastElapsedTime_initialState: "lastElapsedTime (initialState planets) = 0"
  by (simp add: initialState_def)

lemma scenarioA_increment:
  "progressIncrement scenarioA (1, 1) (initialState scenarioA) earth = 5 * pi / (288 * sqrt 2)"
proof -
  have "distinct (map name scenarioA)"
    using wellFormed_scenarioA by (simp add: wellFormed_def)
  then have "progressIncrement scenarioA (1, 1) (initialState scenarioA) earth =
      orbitSpeedRadians earth 1 * (1 - 0)"
    using progressIncrement_eq [of scenarioA earth "(1, 1)" "initialState scenarioA"]
    by (simp add: earth_facts lastElapsedTime_initialState)
  also have "\<dots> = 5 * pi / (288 * sqrt 2)"
    by (simp add: orbitSpeedRadians_def keplerFactor_def ORBIT_SPEED_FACTOR_def earth_facts
        sqrt_inverse_512)
  finally show ?thesis .
qed

lemma scenarioA_increment_tight:
  "385 / 10000 < 5 * pi / (288 * sqrt 2)" "5 * pi / (288 * sqrt 2) < 387 / 10000"
proof -
  have s: "0 < sqrt 2" by simp
  have "385 * (288 * sqrt 2) < 50000 * pi"
    using pi_bounds(1) sqrt2_tight(2) by linarith
  then show "385 / 10000 < 5 * pi / (288 * sqrt 2)"
    using s by (simp add: field_simps)
  have "50000 * pi < 387 * (288 * sqrt 2)"
    using pi_bounds(2) sqrt2_tight(1) by linarith
  then show "5 * pi / (288 * sqrt 2) < 387 / 10000"
    using s by (simp add: field_simps)
qed

lemma scenarioA_position:
  "planetPosition earth (prevOrZero (content (useFrame scenarioA (1, 1) (initialState scenarioA))) (name earth))
   = Some (Vector3 (cos (5 * pi / (288 * sqrt 2)) * 8) 0 (sin (5 * pi / (288 * sqrt 2)) * 8))"
proof -
  have "prevOrZero (content (initialState scenarioA)) (name earth) = 0"
    by (simp add: prevOrZero_def initialState_def content_def initialProgress_entry earth_facts(1))
  with scenarioA_increment
  have "prevOrZero (content (useFrame scenarioA (1, 1) (initialState scenarioA))) (name earth)
      = 5 * pi / (288 * sqrt 2)"
    by (simp add: progressIncrement_def)
  then show ?thesis by (simp add: planetPosition_def earth_def)
qed

lemma distinct_scenarioA: "distinct (map name scenarioA)"
  using wellFormed_scenarioA by (simp add: wellFormed_def)

lemma distinct_keplerPair: "distinct (map name keplerPair)"
  by (simp add: keplerPair_def theSun_def earth_def outerBody_def)

lemma distinct_stalledPair: "distinct (map name stalledPair)"
  by (simp add: stalledPair_def theSun_def stalledInner_def stalledOuter_def)

section \<open>Vectors and the cases of the camera controller\<close>

lemma vlength_scale: "vlength (multiplyScalar u c) = \<bar>c\<bar> * vlength u"
proof -
  have "vx u * c * (vx u * c) + vy u * c * (vy u * c) + vz u * c * (vz u * c)
      = c\<^sup>2 * (vx u * vx u + vy u * vy u + vz u * vz u)"
    by (simp add: power2_eq_square algebra_simps)
  then show ?thesis
    by (simp add: vlength_def multiplyScalar_def real_sqrt_mult)
qed

lemma lerp_error: "vsub (lerp a v alpha) v = multiplyScalar (vsub a v) (1 - alpha)"
  by (simp add: lerp_def vsub_def multiplyScalar_def algebra_simps)

lemma distanceTo_lerp: "distanceTo (lerp a v alpha) v = \<bar>1 - alpha\<bar> * distanceTo a v"
  by (simp add: distanceTo_def lerp_error vlength_scale)

lemma distanceTo_self: "distanceTo a a = 0"
  by (simp add: distanceTo_def vsub_def vlength_def)

lemma caseZOOMING_IN_unresolved:
  "getPlanetPosition sel reg = None \<Longrightarrow> caseZOOMING_IN sel reg w = w"
  by (cases sel) (simp_all add: caseZOOMING_IN_def)

lemma funpow_fixed: "f x = x \<Longrightarrow> (f ^^ n) x = x"
  by (induction n) simp_all

lemma caseZOOMING_IN_resolved:
  assumes "getPlanetPosition (Some sel) reg = Some pos"
  shows "caseZOOMING_IN (Some sel) reg w =
     (let w2 = w\<lparr>controls := (controls w)\<lparr>enabled := False\<rparr>,
                 cameraPosition := lerp (cameraPosition w) (targetPosition sel pos) LERP_FACTOR,
                 invisibleTarget := lerp (invisibleTarget w) pos FAST_LERP_FACTOR,
                 lookAt := lerp (invisibleTarget w) pos FAST_LERP_FACTOR\<rparr>
      in if distanceTo (cameraPosition w2) (targetPosition sel pos) < selRadius sel * POSITION_EPSILON \<and>
            distanceTo (invisibleTarget w2) pos < selRadius sel * POSITION_EPSILON
         then w2\<lparr>controls := (controls w2)\<lparr>target := invisibleTarget w2\<rparr>,
                  cameraState := DETAIL_VIEW\<rparr>
         else w2)"
  using assms by (simp add: caseZOOMING_IN_def Let_def)

lemma getPlanetPosition_Some:
  assumes "getPlanetPosition (Some sel) reg = Some pos"
  shows "(selIsSun sel \<longrightarrow> pos = Vector3 0 0 0) \<and>
         (\<not> selIsSun sel \<and> selIsMoon sel \<and> selPosition sel \<noteq> None \<longrightarrow> selPosition sel = Some pos) \<and>
         (\<not> selIsSun sel \<and> \<not> (selIsMoon sel \<and> selPosition sel \<noteq> None) \<longrightarrow> reg (selName sel) = Some pos)"
  using assms by (auto simp: getPlanetPosition_def split: if_splits)

lemma caseMOVING_TO_HOME_eq:
  "caseMOVING_TO_HOME w =
     (let w2 = w\<lparr>controls := (controls w)\<lparr>enabled := False\<rparr>,
                 cameraPosition := lerp (cameraPosition w) HOME_POSITION LERP_FACTOR,
                 invisibleTarget := lerp (invisibleTarget w) (Vector3 0 0 0) LERP_FACTOR,
                 lookAt := lerp (invisibleTarget w) (Vector3 0 0 0) LERP_FACTOR\<rparr>
      in if distanceTo (cameraPosition w2) HOME_POSITION < POSITION_EPSILON \<and>
            distanceTo (invisibleTarget w2) (Vector3 0 0 0) < POSITION_EPSILON
         then w2\<lparr>cameraPosition := HOME_POSITION,
                  invisibleTarget := Vector3 0 0 0,
                  controls := (controls w2)\<lparr>target := Vector3 0 0 0, maxDistance := Infinity\<rparr>,
                  cameraState := FREE\<rparr>
         else w2)"
  by (simp add: caseMOVING_TO_HOME_def Let_def)

lemma caseDETAIL_VIEW_resolved:
  assumes "getPlanetPosition (Some sel) reg = Some pos"
  shows "caseDETAIL_VIEW (Some sel) reg w =
     w\<lparr>controls := (controls w)
          \<lparr>enabled := True, target := pos,
           minDistance := selRadius sel * MIN_FACTOR (distanceConfig sel),
           maxDistance := Finite (selRadius sel * MAX_FACTOR (distanceConfig sel))\<rparr>\<rparr>"
  using assms by (simp add: caseDETAIL_VIEW_def)

lemma distanceConfig_values:
  "distanceConfig sel =
     (if selIsSun sel then \<lparr>MIN_FACTOR = 1.5, MAX_FACTOR = 10\<rparr>
      else if selIsMoon sel then \<lparr>MIN_FACTOR = 1.5, MAX_FACTOR = 15\<rparr>
      else if selName sel = ''Jupiter'' then \<lparr>MIN_FACTOR = 1.2, MAX_FACTOR = 5\<rparr>
      else \<lparr>MIN_FACTOR = 1.2, MAX_FACTOR = 3\<rparr>)"
  by (simp add: distanceConfig_def SUN_def JUPITER_def DEFAULT_PLANET_def)

lemma earth_resolved:
  "getPlanetPosition (Some (PlanetSelection earth)) earthRegistry = Some (Vector3 8 0 0)"
  by (simp add: getPlanetPosition_def selIsSun_def selIsMoon_def selName_def earth_def
      earthRegistry_def)

lemma moon_resolved: "getPlanetPosition (Some moonSel) reg = Some (Vector3 9 0 0)"
  by (simp add: getPlanetPosition_def selIsSun_def selIsMoon_def selPosition_def moonSel_def)

lemma cycle_speed_free:
  "speedControl (handleCycleSpeed id (\<lambda>v s. v) (appAt FREE None)) = 2"
  by (simp add: handleCycleSpeed_def isDisabled_def appAt_def worldAt_def SPEED_PRESETS_def)

section \<open>Returning home\<close>

lemma moving_to_home_frame:
  assumes "cameraState (camera app) = MOVING_TO_HOME" and "app' = cameraFrame app"
  shows "selectedPlanet app' = selectedPlanet app \<and>
         selectedPlanet (goHome restoreSpeedFactor app) = None \<and>
         cameraState (camera (goHome restoreSpeedFactor app)) = MOVING_TO_HOME \<and>
         (cameraState (camera app') = FREE \<longleftrightarrow>
            0.985 * distanceTo (cameraPosition (camera app)) (Vector3 11 1 1) < 0.1 \<and>
            0.985 * distanceTo (invisibleTarget (camera app)) (Vector3 0 0 0) < 0.1) \<and>
         (cameraState (camera app') = FREE \<longrightarrow>
            cameraPosition (camera app') = Vector3 11 1 1 \<and>
            invisibleTarget (camera app') = Vector3 0 0 0 \<and>
            target (controls (camera app')) = Vector3 0 0 0 \<and>
            maxDistance (controls (camera app')) = Infinity) \<and>
         (cameraState (camera app') \<noteq> FREE \<longrightarrow>
            cameraState (camera app') = MOVING_TO_HOME \<and>
            cameraPosition (camera app') = lerp (cameraPosition (camera app)) (Vector3 11 1 1) 0.015 \<and>
            invisibleTarget (camera app') = lerp (invisibleTarget (camera app)) (Vector3 0 0 0) 0.015)"
proof -
  let ?w = "camera app"
  let ?reached = "0.985 * distanceTo (cameraPosition ?w) (Vector3 11 1 1) < 0.1 \<and>
      0.985 * distanceTo (invisibleTarget ?w) (Vector3 0 0 0) < 0.1"
  have cam: "camera app' = caseMOVING_TO_HOME ?w"
    using assms by (simp add: cameraFrame_def updateCameraState_def)
  have r: "distanceTo (lerp (cameraPosition ?w) HOME_POSITION LERP_FACTOR) HOME_POSITION < POSITION_EPSILON \<and>
      distanceTo (lerp (invisibleTarget ?w) (Vector3 0 0 0) LERP_FACTOR) (Vector3 0 0 0) < POSITION_EPSILON
      \<longleftrightarrow> ?reached"
    by (simp add: distanceTo_lerp LERP_FACTOR_def POSITION_EPSILON_def HOME_POSITION_def)
  have sel: "selectedPlanet app' = selectedPlanet app"
    using assms(2) by (simp add: cameraFrame_def)
  have gh: "selectedPlanet (goHome restoreSpeedFactor app) = None"
    "cameraState (camera (goHome restoreSpeedFactor app)) = MOVING_TO_HOME"
    by (simp_all add: goHome_def)
  have st: "cameraState (camera app') = (if ?reached then FREE else MOVING_TO_HOME)"
    unfolding cam caseMOVING_TO_HOME_eq using assms(1) r by (simp add: Let_def)
  have arrived: "cameraPosition (camera app') = Vector3 11 1 1 \<and>
      invisibleTarget (camera app') = Vector3 0 0 0 \<and>
      target (controls (camera app')) = Vector3 0 0 0 \<and>
      maxDistance (controls (camera app')) = Infinity" if "?reached"
  proof -
    from that r have "distanceTo (lerp (cameraPosition ?w) HOME_POSITION LERP_FACTOR) HOME_POSITION
          < POSITION_EPSILON \<and>
        distanceTo (lerp (invisibleTarget ?w) (Vector3 0 0 0) LERP_FACTOR) (Vector3 0 0 0)
          < POSITION_EPSILON"
      by blast
    then show ?thesis
      unfolding cam caseMOVING_TO_HOME_eq by (simp add: Let_def HOME_POSITION_def)
  qed
  have going: "cameraPosition (camera app') = lerp (cameraPosition ?w) (Vector3 11 1 1) 0.015 \<and>
      invisibleTarget (camera app') = lerp (invisibleTarget ?w) (Vector3 0 0 0) 0.015" if "\<not> ?reached"
  proof -
    from that r have "\<not> (distanceTo (lerp (cameraPosition ?w) HOME_POSITION LERP_FACTOR) HOME_POSITION
          < POSITION_EPSILON \<and>
        distanceTo (lerp (invisibleTarget ?w) (Vector3 0 0 0) LERP_FACTOR) (Vector3 0 0 0)
          < POSITION_EPSILON)"
      by blast
    then show ?thesis
      unfolding cam caseMOVING_TO_HOME_eq
      by (auto simp add: Let_def HOME_POSITION_def LERP_FACTOR_def)
  qed
  have s1: "cameraState (camera app') = FREE \<longleftrightarrow> ?reached" using st by simp
  have s2: "cameraState (camera app') \<noteq> FREE \<longrightarrow> cameraState (camera app') = MOVING_TO_HOME"
    using st by simp
  from sel gh s1 s2 arrived going show ?thesis by blast
qed

lemma updateCameraState_enters_home:
  assumes "cameraState (updateCameraState sel reg w) = MOVING_TO_HOME"
  shows "cameraState w = MOVING_TO_HOME"
proof (cases "cameraState w")
  case INTRO_ANIMATION
  with assms show ?thesis
    by (simp add: updateCameraState_def caseINTRO_ANIMATION_def Let_def split: if_splits)
next
  case FREE
  with assms show ?thesis
    by (simp add: updateCameraState_def caseFREE_def)
next
  case ZOOMING_IN
  with assms show ?thesis
    by (simp add: updateCameraState_def caseZOOMING_IN_def Let_def split: option.splits if_splits)
next
  case DETAIL_VIEW
  with assms show ?thesis
    by (simp add: updateCameraState_def caseDETAIL_VIEW_def split: option.splits)
next
  case MOVING_TO_HOME
  then show ?thesis .
qed

lemma homeboundCleared_step:
  assumes "homeboundCleared app"
  shows "homeboundCleared (step ov rs e app)"
proof (cases e)
  case Frame
  have "cameraState (camera app) = MOVING_TO_HOME"
    if "cameraState (camera (cameraFrame app)) = MOVING_TO_HOME"
    using that by (auto simp: cameraFrame_def dest: updateCameraState_enters_home)
  with assms Frame show ?thesis
    by (auto simp: homeboundCleared_def cameraFrame_def)
next
  case GoHome
  then show ?thesis by (simp add: homeboundCleared_def goHome_def)
next
  case ExitView
  with assms show ?thesis by (simp add: homeboundCleared_def exitView_def)
next
  case Tap
  with assms show ?thesis by (simp add: homeboundCleared_def handleTap_def)
next
  case (SelectBody sel)
  then show ?thesis by (simp add: homeboundCleared_def selectBody_def)
next
  case (RegistryWrite reg)
  with assms show ?thesis by (simp add: homeboundCleared_def)
next
  case (SpeedChange f)
  with assms show ?thesis by (simp add: homeboundCleared_def)
qed

lemma homeboundCleared_run:
  "homeboundCleared app \<Longrightarrow> homeboundCleared (run ov rs events app)"
  unfolding run_def
  by (induction events arbitrary: app) (simp_all add: homeboundCleared_step)

section \<open>The claims\<close>

subsection \<open>Orbital advance\<close>

text \<open>
  Claim C1, as the code has it. The updater treats the product
  \<open>orbitSpeed * 50 * keplerFactor\<close> as degrees per unit time and converts it to radians:
  for every body that is not the star and has a positive orbit radius, in a catalog with
  unique names, the progress increment of one frame is
  \<open>orbitSpeed * 50 * orbitRadius^(-1.5) * (2 pi / 360) * speedFactor * deltaTime\<close>.
  For Earth of Scenario A (orbit radius 8, orbit speed 1) one frame with \<open>deltaTime = 1\<close>
  and \<open>speedFactor = 1\<close> advances the progress by \<open>d = 5 pi / (288 sqrt 2)\<close>, which lies
  between 0.0385 and 0.0387, and the new position is \<open>(8 cos d, 0, 8 sin d)\<close> with
  \<open>7.994 < 8 cos d < 7.9941\<close> and \<open>0.307 < 8 sin d < 0.31\<close>.
\<close>

theorem orbit_increment_formula:
  "(\<forall>planets p t sf s.
      distinct (map name planets) \<and> p \<in> set planets \<and> \<not> isSun p \<and> 0 < distanceFromSun p \<longrightarrow>
      progressIncrement planets (t, sf) s p =
        orbitSpeed p * 50 * distanceFromSun p powr (- 3 / 2) * (2 * pi / 360)
          * sf * (t - lastElapsedTime s)) \<and>
   progressIncrement scenarioA (1, 1) (initialState scenarioA) earth = 5 * pi / (288 * sqrt 2) \<and>
   385 / 10000 < 5 * pi / (288 * sqrt 2) \<and> 5 * pi / (288 * sqrt 2) < 387 / 10000 \<and>
   planetPosition earth
     (prevOrZero (content (useFrame scenarioA (1, 1) (initialState scenarioA))) (name earth))
     = Some (Vector3 (cos (5 * pi / (288 * sqrt 2)) * 8) 0 (sin (5 * pi / (288 * sqrt 2)) * 8)) \<and>
   7994 / 1000 < cos (5 * pi / (288 * sqrt 2)) * 8 \<and> cos (5 * pi / (288 * sqrt 2)) * 8 < 79941 / 10000 \<and>
   307 / 1000 < sin (5 * pi / (288 * sqrt 2)) * 8 \<and> sin (5 * pi / (288 * sqrt 2)) * 8 < 31 / 100"
proof -
  have general: "progressIncrement planets (t, sf) s p =
      orbitSpeed p * 50 * distanceFromSun p powr (- 3 / 2) * (2 * pi / 360)
        * sf * (t - lastElapsedTime s)"
    if "distinct (map name planets) \<and> p \<in> set planets \<and> \<not> isSun p \<and> 0 < distanceFromSun p"
    for planets p t sf s
  proof -
    have d: "distinct (map name planets)" and pos: "0 < distanceFromSun p"
      and p: "p \<in> set planets" "\<not> isSun p"
      using that by simp_all
    have "keplerFactor p = distanceFromSun p powr (- 3 / 2)"
      using pos by (simp only: keplerFactor_def kepler_powr)
    then show ?thesis
      using d p by (simp add: progressIncrement_eq orbitSpeedRadians_def ORBIT_SPEED_FACTOR_def)
  qed
  note b = small_angle_tight [OF scenarioA_increment_tight]
  from general scenarioA_increment scenarioA_increment_tight scenarioA_position b
  show ?thesis by blast
qed

theorem orbit_increment_formula_witness:
  "distinct (map name scenarioA) \<and> earth \<in> set scenarioA \<and> \<not> isSun earth \<and>
   0 < distanceFromSun earth \<and>
   progressIncrement scenarioA (1, 1) (initialState scenarioA) earth
     = 1 * 50 * 8 powr (- 3 / 2) * (2 * pi / 360) * 1 * (1 - 0)"
proof -
  have h: "distinct (map name scenarioA) \<and> earth \<in> set scenarioA \<and> \<not> isSun earth \<and>
      0 < distanceFromSun earth"
    using distinct_scenarioA earth_facts by simp
  from orbit_increment_formula
  have "distinct (map name scenarioA) \<and> earth \<in> set scenarioA \<and> \<not> isSun earth \<and>
      0 < distanceFromSun earth \<longrightarrow>
      progressIncrement scenarioA (1, 1) (initialState scenarioA) earth =
        orbitSpeed earth * 50 * distanceFromSun earth powr (- 3 / 2) * (2 * pi / 360)
          * 1 * (1 - lastElapsedTime (initialState scenarioA))"
    by blast
  with h show ?thesis
    by (simp add: earth_facts lastElapsedTime_initialState)
qed

text \<open>
  The formula of the claim as it is written, without the conversion factor, fails on
  Scenario A: the increment differs from \<open>1 * 50 * 8^(-1.5) * 1 * 1\<close> (about 2.21), it
  is below 0.0387, and the \<open>x\<close> coordinate of the new position is positive, not about
  \<open>-6.45\<close>.
\<close>

theorem claimed_formula_counterexample:
  "progressIncrement scenarioA (1, 1) (initialState scenarioA) earth
     \<noteq> orbitSpeed earth * 50 * distanceFromSun earth powr (- 3 / 2) * 1 * (1 - 0) \<and>
   progressIncrement scenarioA (1, 1) (initialState scenarioA) earth < 387 / 10000 \<and>
   planetPosition earth
     (prevOrZero (content (useFrame scenarioA (1, 1) (initialState scenarioA))) (name earth))
     = Some (Vector3 (cos (5 * pi / (288 * sqrt 2)) * 8) 0 (sin (5 * pi / (288 * sqrt 2)) * 8)) \<and>
   0 < cos (5 * pi / (288 * sqrt 2)) * 8"
proof -
  have "(8::real) powr (- 3 / 2) = 1 / (16 * sqrt 2)"
    using kepler_powr [of 8] sqrt_inverse_512 by simp
  then have claimed: "orbitSpeed earth * 50 * distanceFromSun earth powr (- 3 / 2) * 1 * (1 - 0)
      = 50 / (16 * sqrt 2)"
    by (simp add: earth_facts)
  have large: "(387::real) / 10000 < 50 / (16 * sqrt 2)"
    using sqrt2_tight(2) by (simp add: field_simps)
  have small: "progressIncrement scenarioA (1, 1) (initialState scenarioA) earth < 387 / 10000"
    using scenarioA_increment scenarioA_increment_tight(2) by simp
  note b = small_angle_tight [OF scenarioA_increment_tight]
  have x: "0 < cos (5 * pi / (288 * sqrt 2)) * 8"
    using b(1) by simp
  have "progressIncrement scenarioA (1, 1) (initialState scenarioA) earth
     \<noteq> orbitSpeed earth * 50 * distanceFromSun earth powr (- 3 / 2) * 1 * (1 - 0)"
    using claimed large small by linarith
  with small x scenarioA_position show ?thesis by blast
qed

subsection \<open>The camera state machine\<close>

text \<open>
  Claim C2, as the code has it. In \<open>ZOOMING_IN\<close> with a selection whose position
  resolves to \<open>pos\<close>, one frame moves the look-at target toward \<open>pos\<close> by the fast rate
  and the camera toward \<open>pos\<close> plus the offset of the body's class by the slow rate, and the
  state becomes \<open>DETAIL_VIEW\<close> exactly when, after the move, both errors are below
  \<open>radius * 0.1\<close>; in terms of the pose before the frame, exactly when 0.985 times the
  camera error and 0.96 times the look-at error are below that bound. The resolved
  position is the live registry entry only for a planet: for the star it is the origin and
  for a moon that carries a position it is that frozen position.
\<close>

theorem zooming_in_step:
  assumes "cameraState w = ZOOMING_IN" and "getPlanetPosition (Some sel) reg = Some pos"
    and "w' = updateCameraState (Some sel) reg w"
  shows "(selIsSun sel \<longrightarrow> pos = Vector3 0 0 0) \<and>
         (\<not> selIsSun sel \<and> selIsMoon sel \<and> selPosition sel \<noteq> None \<longrightarrow> selPosition sel = Some pos) \<and>
         (\<not> selIsSun sel \<and> \<not> (selIsMoon sel \<and> selPosition sel \<noteq> None) \<longrightarrow> reg (selName sel) = Some pos) \<and>
         targetPosition sel pos =
           vadd pos (if selIsSun sel then multiplyScalar (Vector3 8 4 6) (selRadius sel * 0.4)
                     else calculateCameraOffset pos sel) \<and>
         invisibleTarget w' = lerp (invisibleTarget w) pos 0.04 \<and>
         cameraPosition w' = lerp (cameraPosition w) (targetPosition sel pos) 0.015 \<and>
         lookAt w' = invisibleTarget w' \<and>
         (cameraState w' = DETAIL_VIEW \<longleftrightarrow>
            distanceTo (cameraPosition w') (targetPosition sel pos) < selRadius sel * 0.1 \<and>
            distanceTo (invisibleTarget w') pos < selRadius sel * 0.1) \<and>
         (cameraState w' = DETAIL_VIEW \<longleftrightarrow>
            0.985 * distanceTo (cameraPosition w) (targetPosition sel pos) < selRadius sel * 0.1 \<and>
            0.96 * distanceTo (invisibleTarget w) pos < selRadius sel * 0.1) \<and>
         (cameraState w' \<noteq> DETAIL_VIEW \<longrightarrow> cameraState w' = ZOOMING_IN)"
proof -
  let ?T = "targetPosition sel pos"
  let ?reached = "distanceTo (lerp (cameraPosition w) ?T LERP_FACTOR) ?T < selRadius sel * POSITION_EPSILON \<and>
      distanceTo (lerp (invisibleTarget w) pos FAST_LERP_FACTOR) pos < selRadius sel * POSITION_EPSILON"
  have w': "w' = caseZOOMING_IN (Some sel) reg w"
    using assms(1,3) by (simp add: updateCameraState_def)
  have tgt: "?T = vadd pos (if selIsSun sel then multiplyScalar (Vector3 8 4 6) (selRadius sel * 0.4)
                     else calculateCameraOffset pos sel)"
    by (simp add: targetPosition_def SUN_def)
  have it: "invisibleTarget w' = lerp (invisibleTarget w) pos 0.04"
    and cp: "cameraPosition w' = lerp (cameraPosition w) ?T 0.015"
    and la: "lookAt w' = invisibleTarget w'"
    unfolding w' caseZOOMING_IN_resolved [OF assms(2)]
    by (simp_all add: Let_def LERP_FACTOR_def FAST_LERP_FACTOR_def)
  have st: "cameraState w' = (if ?reached then DETAIL_VIEW else ZOOMING_IN)"
    unfolding w' caseZOOMING_IN_resolved [OF assms(2)]
    using assms(1) by (simp add: Let_def)
  have r1: "?reached \<longleftrightarrow>
      distanceTo (cameraPosition w') ?T < selRadius sel * 0.1 \<and>
      distanceTo (invisibleTarget w') pos < selRadius sel * 0.1"
    by (simp add: it cp LERP_FACTOR_def FAST_LERP_FACTOR_def POSITION_EPSILON_def)
  have r2: "?reached \<longleftrightarrow>
      0.985 * distanceTo (cameraPosition w) ?T < selRadius sel * 0.1 \<and>
      0.96 * distanceTo (invisibleTarget w) pos < selRadius sel * 0.1"
    by (simp add: distanceTo_lerp LERP_FACTOR_def FAST_LERP_FACTOR_def POSITION_EPSILON_def)
  have s1: "cameraState w' = DETAIL_VIEW \<longleftrightarrow> ?reached"
    using st by simp
  have s2: "cameraState w' \<noteq> DETAIL_VIEW \<longrightarrow> cameraState w' = ZOOMING_IN"
    using st by simp
  note g = getPlanetPosition_Some [OF assms(2)]
  from g tgt it cp la s1 r1 r2 s2 show ?thesis by blast
qed

theorem zooming_in_step_witness:
  "cameraState (worldAt ZOOMING_IN) = ZOOMING_IN \<and>
   getPlanetPosition (Some (PlanetSelection earth)) earthRegistry = Some (Vector3 8 0 0) \<and>
   earthRegistry (selName (PlanetSelection earth)) = Some (Vector3 8 0 0) \<and>
   invisibleTarget (updateCameraState (Some (PlanetSelection earth)) earthRegistry (worldAt ZOOMING_IN))
     = Vector3 (8 / 25) 0 0 \<and>
   cameraState (updateCameraState (Some (PlanetSelection earth)) earthRegistry (worldAt ZOOMING_IN))
     = ZOOMING_IN \<and>
   cameraState (updateCameraState (Some (PlanetSelection earth)) earthRegistry
     ((worldAt ZOOMING_IN)\<lparr>cameraPosition := targetPosition (PlanetSelection earth) (Vector3 8 0 0),
                            invisibleTarget := Vector3 8 0 0\<rparr>))
     = DETAIL_VIEW"
proof -
  let ?near = "(worldAt ZOOMING_IN)\<lparr>cameraPosition := targetPosition (PlanetSelection earth) (Vector3 8 0 0),
                            invisibleTarget := Vector3 8 0 0\<rparr>"
  have st: "cameraState (worldAt ZOOMING_IN) = ZOOMING_IN"
    and st': "cameraState ?near = ZOOMING_IN"
    by (simp_all add: worldAt_def)
  note t = zooming_in_step [OF st earth_resolved refl]
  note t' = zooming_in_step [OF st' earth_resolved refl]
  have far: "\<not> 0.96 * distanceTo (invisibleTarget (worldAt ZOOMING_IN)) (Vector3 8 0 0)
      < selRadius (PlanetSelection earth) * 0.1"
    by (simp add: worldAt_def distanceTo_def vsub_def vlength_def selRadius_def earth_def)
  have near: "0.985 * distanceTo (cameraPosition ?near) (targetPosition (PlanetSelection earth) (Vector3 8 0 0))
      < selRadius (PlanetSelection earth) * 0.1"
    "0.96 * distanceTo (invisibleTarget ?near) (Vector3 8 0 0) < selRadius (PlanetSelection earth) * 0.1"
    by (simp_all add: distanceTo_self selRadius_def earth_def)
  have "invisibleTarget (updateCameraState (Some (PlanetSelection earth)) earthRegistry (worldAt ZOOMING_IN))
     = Vector3 (8 / 25) 0 0"
    using t by (simp add: worldAt_def lerp_def)
  moreover have "cameraState (updateCameraState (Some (PlanetSelection earth)) earthRegistry (worldAt ZOOMING_IN))
     = ZOOMING_IN"
    using t far by blast
  moreover have "cameraState (updateCameraState (Some (PlanetSelection earth)) earthRegistry ?near)
     = DETAIL_VIEW"
    using t' near by blast
  moreover have "earthRegistry (selName (PlanetSelection earth)) = Some (Vector3 8 0 0)"
    by (simp add: earthRegistry_def selName_def earth_def)
  ultimately show ?thesis using st earth_resolved by blast
qed

text \<open>
  For a moon the look-at target is not taken from the registry: the registry has no entry
  under the moon's name, the frame still moves the target toward the position stored in the
  selection, and a change of the live registry leaves the frame's result unchanged.
\<close>

theorem live_registry_counterexample:
  "selIsMoon moonSel \<and> earthRegistry (selName moonSel) = None \<and>
   getPlanetPosition (Some moonSel) earthRegistry = Some (Vector3 9 0 0) \<and>
   getPlanetPosition (Some moonSel) earthRegistry \<noteq> earthRegistry (selName moonSel) \<and>
   invisibleTarget (updateCameraState (Some moonSel) earthRegistry (worldAt ZOOMING_IN))
     = Vector3 (9 / 25) 0 0 \<and>
   updateCameraState (Some moonSel) (earthRegistry(''Earth'' \<mapsto> Vector3 0 0 8)) (worldAt ZOOMING_IN)
     = updateCameraState (Some moonSel) earthRegistry (worldAt ZOOMING_IN)"
proof -
  have n: "earthRegistry (selName moonSel) = None"
    by (simp add: earthRegistry_def selName_def moonSel_def)
  have m: "selIsMoon moonSel" by (simp add: selIsMoon_def moonSel_def)
  have step: "updateCameraState (Some moonSel) reg (worldAt ZOOMING_IN) =
      caseZOOMING_IN (Some moonSel) reg (worldAt ZOOMING_IN)" for reg
    by (simp add: updateCameraState_def worldAt_def)
  have "invisibleTarget (caseZOOMING_IN (Some moonSel) earthRegistry (worldAt ZOOMING_IN))
     = Vector3 (9 / 25) 0 0"
    unfolding caseZOOMING_IN_resolved [OF moon_resolved]
    by (simp add: Let_def worldAt_def lerp_def FAST_LERP_FACTOR_def)
  moreover have "caseZOOMING_IN (Some moonSel) reg (worldAt ZOOMING_IN) =
      caseZOOMING_IN (Some moonSel) reg' (worldAt ZOOMING_IN)" for reg reg'
    by (simp only: caseZOOMING_IN_resolved [OF moon_resolved])
  ultimately show ?thesis
    using n m by (simp add: step moon_resolved)
qed

text \<open>
  Claim C3, as the code has it. In \<open>ZOOMING_IN\<close>, when the selection is empty or its
  position does not resolve, the frame returns at once: the whole camera world is
  unchanged, and so the state is still \<open>ZOOMING_IN\<close> after any number of such frames.
  Nothing is thrown; there is no transition to \<open>MOVING_TO_HOME\<close>.
\<close>

theorem zooming_in_unresolved_is_noop:
  assumes "cameraState w = ZOOMING_IN" and "sel = None \<or> getPlanetPosition sel reg = None"
  shows "updateCameraState sel reg w = w \<and>
         cameraState ((updateCameraState sel reg ^^ n) w) = ZOOMING_IN"
proof -
  have "getPlanetPosition sel reg = None"
    using assms(2) by (auto simp: getPlanetPosition_def)
  with assms(1) have "updateCameraState sel reg w = w"
    by (simp add: updateCameraState_def caseZOOMING_IN_unresolved)
  then show ?thesis using assms(1) by (simp add: funpow_fixed)
qed

theorem zooming_in_unresolved_witness:
  "cameraState (worldAt ZOOMING_IN) = ZOOMING_IN \<and>
   getPlanetPosition (Some (PlanetSelection earth)) Map.empty = None \<and>
   updateCameraState (Some (PlanetSelection earth)) Map.empty (worldAt ZOOMING_IN) = worldAt ZOOMING_IN \<and>
   cameraState ((updateCameraState (Some (PlanetSelection earth)) Map.empty ^^ 100) (worldAt ZOOMING_IN))
     = ZOOMING_IN"
proof -
  have st: "cameraState (worldAt ZOOMING_IN) = ZOOMING_IN"
    by (simp add: worldAt_def)
  have un: "getPlanetPosition (Some (PlanetSelection earth)) Map.empty = None"
    by (simp add: getPlanetPosition_def selIsSun_def selIsMoon_def earth_def)
  from un have "Some (PlanetSelection earth) = None \<or>
      getPlanetPosition (Some (PlanetSelection earth)) Map.empty = None" by simp
  from zooming_in_unresolved_is_noop [OF st this, of 100] st un show ?thesis by blast
qed

text \<open>
  With the selection cleared, and likewise with Earth selected and an empty registry, the
  state after the frame is not \<open>MOVING_TO_HOME\<close>.
\<close>

theorem return_home_counterexample:
  "cameraState (worldAt ZOOMING_IN) = ZOOMING_IN \<and>
   getPlanetPosition None earthRegistry = None \<and>
   cameraState (updateCameraState None earthRegistry (worldAt ZOOMING_IN)) \<noteq> MOVING_TO_HOME \<and>
   getPlanetPosition (Some (PlanetSelection earth)) Map.empty = None \<and>
   cameraState (updateCameraState (Some (PlanetSelection earth)) Map.empty (worldAt ZOOMING_IN))
     \<noteq> MOVING_TO_HOME"
  by (simp add: updateCameraState_def caseZOOMING_IN_def getPlanetPosition_def worldAt_def
      selIsSun_def selIsMoon_def earth_def)

text \<open>
  Claim C4. In every state the program reaches from a state with nothing selected, by
  frames and handler calls in any order: when the machine is in \<open>MOVING_TO_HOME\<close> and
  both the camera's distance to the home position and the look-at target's distance to the
  origin are under the fixed bound 0.1 (measured after the frame's move, that is 0.985
  times the distances before it; in particular when the distances before it are under the
  bound), the frame sets the camera to the home position and the look-at target to the
  origin, the state becomes \<open>FREE\<close> and the selection is \<open>None\<close>. The selection is
  emptied by the handler that enters \<open>MOVING_TO_HOME\<close>; the frame leaves it as it is.
\<close>

theorem home_round_trip:
  assumes "selectedPlanet app0 = None"
    and "app = run overrideSpeedFactor restoreSpeedFactor events app0"
    and "cameraState (camera app) = MOVING_TO_HOME"
    and "app' = cameraFrame app"
  shows "(cameraState (camera app') = FREE \<longleftrightarrow>
            distanceTo (lerp (cameraPosition (camera app)) HOME_POSITION LERP_FACTOR) HOME_POSITION
              < POSITION_EPSILON \<and>
            distanceTo (lerp (invisibleTarget (camera app)) (Vector3 0 0 0) LERP_FACTOR) (Vector3 0 0 0)
              < POSITION_EPSILON) \<and>
         (cameraState (camera app') = FREE \<longleftrightarrow>
            0.985 * distanceTo (cameraPosition (camera app)) (Vector3 11 1 1) < 0.1 \<and>
            0.985 * distanceTo (invisibleTarget (camera app)) (Vector3 0 0 0) < 0.1) \<and>
         (distanceTo (cameraPosition (camera app)) (Vector3 11 1 1) < 0.1 \<and>
          distanceTo (invisibleTarget (camera app)) (Vector3 0 0 0) < 0.1 \<longrightarrow>
            cameraState (camera app') = FREE) \<and>
         (cameraState (camera app') = FREE \<longrightarrow>
            selectedPlanet app' = None \<and>
            cameraPosition (camera app') = Vector3 11 1 1 \<and>
            invisibleTarget (camera app') = Vector3 0 0 0 \<and>
            target (controls (camera app')) = Vector3 0 0 0 \<and>
            maxDistance (controls (camera app')) = Infinity) \<and>
         (cameraState (camera app') \<noteq> FREE \<longrightarrow>
            cameraState (camera app') = MOVING_TO_HOME \<and> selectedPlanet app' = None)"
proof -
  let ?c = "distanceTo (cameraPosition (camera app)) (Vector3 11 1 1)"
  let ?t = "distanceTo (invisibleTarget (camera app)) (Vector3 0 0 0)"
  have "homeboundCleared app0"
    using assms(1) by (simp add: homeboundCleared_def)
  then have "homeboundCleared app"
    unfolding assms(2) by (rule homeboundCleared_run)
  with assms(3) have none: "selectedPlanet app = None"
    by (simp add: homeboundCleared_def)
  then have none': "selectedPlanet app' = None"
    using assms(4) by (simp add: cameraFrame_def)
  note f = moving_to_home_frame [OF assms(3,4), of id]
  have post: "distanceTo (lerp (cameraPosition (camera app)) HOME_POSITION LERP_FACTOR) HOME_POSITION
        < POSITION_EPSILON \<and>
      distanceTo (lerp (invisibleTarget (camera app)) (Vector3 0 0 0) LERP_FACTOR) (Vector3 0 0 0)
        < POSITION_EPSILON
      \<longleftrightarrow> 0.985 * ?c < 0.1 \<and> 0.985 * ?t < 0.1"
    by (simp add: distanceTo_lerp LERP_FACTOR_def POSITION_EPSILON_def HOME_POSITION_def)
  have nonneg: "0 \<le> ?c" "0 \<le> ?t"
    by (simp_all add: distanceTo_def vlength_def)
  have near: "0.985 * ?c < 0.1 \<and> 0.985 * ?t < 0.1" if "?c < 0.1 \<and> ?t < 0.1"
    using that nonneg by simp
  from f post near none' show ?thesis by blast
qed

theorem home_round_trip_witness:
  "selectedPlanet (appAt FREE None) = None \<and>
   selectedPlanet (run id id [SelectBody (PlanetSelection earth)] (appAt FREE None))
     = Some (PlanetSelection earth) \<and>
   cameraState (camera (run id id [SelectBody (PlanetSelection earth), GoHome] (appAt FREE None)))
     = MOVING_TO_HOME \<and>
   cameraState (camera (cameraFrame
     (run id id [SelectBody (PlanetSelection earth), GoHome] (appAt FREE None)))) = FREE \<and>
   selectedPlanet (cameraFrame
     (run id id [SelectBody (PlanetSelection earth), GoHome] (appAt FREE None))) = None"
proof -
  let ?app = "run id id [SelectBody (PlanetSelection earth), GoHome] (appAt FREE None)"
  have s0: "selectedPlanet (appAt FREE None) = None"
    by (simp add: appAt_def)
  have s1: "selectedPlanet (run id id [SelectBody (PlanetSelection earth)] (appAt FREE None))
      = Some (PlanetSelection earth)"
    by (simp add: run_def selectBody_def)
  have app: "?app = appAt MOVING_TO_HOME None"
    by (simp add: run_def selectBody_def goHome_def appAt_def worldAt_def)
  have st: "cameraState (camera ?app) = MOVING_TO_HOME"
    unfolding app by (simp add: appAt_def worldAt_def)
  note t = home_round_trip [OF s0 refl st refl]
  have "distanceTo (cameraPosition (camera ?app)) (Vector3 11 1 1) < 0.1"
    "distanceTo (invisibleTarget (camera ?app)) (Vector3 0 0 0) < 0.1"
    unfolding app by (simp_all add: appAt_def worldAt_def HOME_POSITION_def distanceTo_self)
  with t have free: "cameraState (camera (cameraFrame ?app)) = FREE" by blast
  with t have "selectedPlanet (cameraFrame ?app) = None" by blast
  with s0 s1 st free show ?thesis by blast
qed

subsection \<open>The star and Kepler scaling\<close>

text \<open>
  Claim C5. In a catalog with unique names, after any sequence of frames from the initial state,
  with any speed factors, the progress entry of the star is 0, and the position the camera
  controller resolves for the star is the origin whatever the registry holds.
\<close>

theorem star_pinned:
  assumes "distinct (map name planets)" and "star \<in> set planets" and "isSun star"
  shows "content (frames planets ticks (initialState planets)) (name star) = Some 0 \<and>
         getPlanetPosition (Some (PlanetSelection star)) reg = Some (Vector3 0 0 0)"
proof -
  from assms(1) have "settled planets (frames planets ticks (initialState planets))"
    by (intro settled_frames settled_initialState)
  then have "content (frames planets ticks (initialState planets)) (name star) = Some 0"
    using assms(2,3) by (simp add: settled_def)
  moreover have "getPlanetPosition (Some (PlanetSelection star)) reg = Some (Vector3 0 0 0)"
    using assms(3) by (simp add: getPlanetPosition_def selIsSun_def)
  ultimately show ?thesis by simp
qed

theorem star_pinned_witness:
  "distinct (map name scenarioA) \<and> theSun \<in> set scenarioA \<and> isSun theSun \<and>
   content (frames scenarioA [(1, 1), (2, 10), (3, 0)] (initialState scenarioA)) ''Sun'' = Some 0 \<and>
   getPlanetPosition (Some (PlanetSelection theSun)) Map.empty = Some (Vector3 0 0 0)"
proof -
  have h: "theSun \<in> set scenarioA" "isSun theSun"
    by (simp_all add: scenarioA_def theSun_def)
  have n: "name theSun = ''Sun''" by (simp add: theSun_def)
  show ?thesis
    using star_pinned [OF distinct_scenarioA h, of "[(1, 1), (2, 10), (3, 0)]" Map.empty]
      distinct_scenarioA h
    by (simp add: n)
qed

text \<open>
  Claim C6, as the code has it. For two bodies that are not the star, in a catalog with
  unique names, with the positive orbit radius of the first smaller than that of the second
  and the same positive orbit speed, a frame with positive \<open>deltaTime\<close> and positive speed factor
  advances the first strictly more than the second. The orbit speed has to be positive.
\<close>

theorem kepler_monotone:
  assumes "distinct (map name planets)" and "a \<in> set planets" and "b \<in> set planets"
    and "\<not> isSun a" and "\<not> isSun b"
    and "0 < distanceFromSun a" and "distanceFromSun a < distanceFromSun b"
    and "orbitSpeed a = orbitSpeed b" and "0 < orbitSpeed a"
    and "0 < sf" and "lastElapsedTime s < t"
  shows "progressIncrement planets (t, sf) s b < progressIncrement planets (t, sf) s a"
proof -
  have "orbitSpeedRadians b sf < orbitSpeedRadians a sf"
    using assms(6,7,8,9,10) by (rule orbitSpeedRadians_antimono)
  moreover have "0 < t - lastElapsedTime s" using assms(11) by simp
  ultimately have "orbitSpeedRadians b sf * (t - lastElapsedTime s)
      < orbitSpeedRadians a sf * (t - lastElapsedTime s)"
    by (simp only: mult_less_cancel_right_pos)
  then show ?thesis
    using assms(1,2,3,4,5) by (simp add: progressIncrement_eq)
qed

theorem kepler_monotone_witness:
  "distinct (map name keplerPair) \<and> earth \<in> set keplerPair \<and> outerBody \<in> set keplerPair \<and>
   \<not> isSun earth \<and> \<not> isSun outerBody \<and>
   0 < distanceFromSun earth \<and> distanceFromSun earth < distanceFromSun outerBody \<and>
   orbitSpeed earth = orbitSpeed outerBody \<and> 0 < orbitSpeed earth \<and>
   progressIncrement keplerPair (1, 1) (initialState keplerPair) outerBody
     < progressIncrement keplerPair (1, 1) (initialState keplerPair) earth"
proof -
  have h: "earth \<in> set keplerPair" "outerBody \<in> set keplerPair" "\<not> isSun earth"
    "\<not> isSun outerBody" "0 < distanceFromSun earth"
    "distanceFromSun earth < distanceFromSun outerBody"
    "orbitSpeed earth = orbitSpeed outerBody" "0 < orbitSpeed earth"
    by (simp_all add: keplerPair_def earth_def outerBody_def distanceFromSun_def)
  have "lastElapsedTime (initialState keplerPair) < 1" "(0::real) < 1"
    by (simp_all add: lastElapsedTime_initialState)
  with kepler_monotone [OF distinct_keplerPair h, of 1 "initialState keplerPair" 1]
  show ?thesis using distinct_keplerPair h by simp
qed

text \<open>
  With equal orbit speed 0 both increments are 0, so the inner body does not outpace the
  outer one.
\<close>

theorem kepler_monotone_counterexample:
  "\<not> isSun stalledInner \<and> \<not> isSun stalledOuter \<and>
   0 < distanceFromSun stalledInner \<and>
   distanceFromSun stalledInner < distanceFromSun stalledOuter \<and>
   orbitSpeed stalledInner = orbitSpeed stalledOuter \<and>
   \<not> (progressIncrement stalledPair (1, 1) (initialState stalledPair) stalledOuter
        < progressIncrement stalledPair (1, 1) (initialState stalledPair) stalledInner)"
proof -
  note d = distinct_stalledPair
  have h: "stalledInner \<in> set stalledPair" "stalledOuter \<in> set stalledPair"
    "\<not> isSun stalledInner" "\<not> isSun stalledOuter"
    by (simp_all add: stalledPair_def stalledInner_def stalledOuter_def)
  have "progressIncrement stalledPair (1, 1) (initialState stalledPair) stalledInner = 0"
    using d h by (simp add: progressIncrement_eq orbitSpeedRadians_def stalledInner_def)
  moreover have "progressIncrement stalledPair (1, 1) (initialState stalledPair) stalledOuter = 0"
    using d h by (simp add: progressIncrement_eq orbitSpeedRadians_def stalledOuter_def)
  ultimately show ?thesis
    using h by (simp add: stalledInner_def stalledOuter_def distanceFromSun_def)
qed

subsection \<open>Referential stability\<close>

text \<open>
  Claim C7. In every state reached from the initial state of a well-formed catalog, a frame
  hands back a different object exactly when the entry of some body changed; the object is
  then the newly allocated one, the previous object and every other allocated object are
  left as they were, and with speed factor 0 the previous object is handed back.
\<close>

theorem referential_stability:
  assumes "wellFormed planets"
    and "s = frames planets ticks (initialState planets)"
    and "s' = useFrame planets (t, sf) s"
  shows "((current s' \<noteq> current s) = (\<exists>p \<in> set planets. content s' (name p) \<noteq> content s (name p))) \<and>
         (current s' = current s \<or> current s' = nextAddr s) \<and>
         current s < nextAddr s \<and>
         (\<forall>a < nextAddr s. objects s' a = objects s a) \<and>
         (sf = 0 \<longrightarrow> current s' = current s)"
proof -
  let ?dt = "t - lastElapsedTime s"
  let ?st = "forEachPlanet planets (content s) sf ?dt"
  have d: "distinct (map name planets)"
    using assms(1) by (simp add: wellFormed_def)
  have inv: "settled planets s"
    unfolding assms(2) using d by (intro settled_frames settled_initialState)
  then have lt: "current s < nextAddr s" by (simp add: settled_def)
  have cur: "current s' = (if hasChanges ?st then nextAddr s else current s)"
    unfolding assms(3) by (simp add: current_useFrame)
  have entry: "content s' (name p) = Some (targetValue (content s) sf ?dt p)"
    if "p \<in> set planets" for p
    unfolding assms(3) using d that by (simp add: content_useFrame_entry)
  have "hasChanges ?st \<longleftrightarrow> (\<exists>p \<in> set planets. content s' (name p) \<noteq> content s (name p))"
    unfolding hasChanges_forEachPlanet using entry by (metis (no_types))
  with cur lt have 1: "(current s' \<noteq> current s) =
      (\<exists>p \<in> set planets. content s' (name p) \<noteq> content s (name p))"
    by auto
  have 2: "current s' = current s \<or> current s' = nextAddr s"
    using cur by simp
  have 3: "\<forall>a < nextAddr s. objects s' a = objects s a"
    unfolding assms(3) by (simp add: objects_useFrame)
  have 4: "current s' = current s" if "sf = 0"
  proof -
    have "content s (name p) = Some (targetValue (content s) sf ?dt p)" if "p \<in> set planets" for p
    proof (cases "isSun p")
      case True
      with inv that show ?thesis by (simp add: settled_def targetValue_def)
    next
      case False
      from inv that obtain v where "content s (name p) = Some v"
        by (auto simp: settled_def)
      with False \<open>sf = 0\<close> show ?thesis
        by (simp add: targetValue_def newValue_def prevOrZero_def orbitSpeedRadians_def)
    qed
    then have "\<not> hasChanges ?st" by (simp add: hasChanges_forEachPlanet)
    with cur show ?thesis by simp
  qed
  from 1 2 lt 3 4 show ?thesis by blast
qed

theorem referential_stability_witness:
  "wellFormed scenarioA \<and>
   current (useFrame scenarioA (2, 0) (frames scenarioA [(1, 1)] (initialState scenarioA)))
     = current (frames scenarioA [(1, 1)] (initialState scenarioA)) \<and>
   current (frames scenarioA [(1, 1)] (initialState scenarioA))
     < nextAddr (frames scenarioA [(1, 1)] (initialState scenarioA)) \<and>
   current (useFrame scenarioA (1, 1) (frames scenarioA [] (initialState scenarioA)))
     = nextAddr (frames scenarioA [] (initialState scenarioA))"
proof -
  let ?s = "frames scenarioA [] (initialState scenarioA)"
  let ?s' = "useFrame scenarioA (1, 1) ?s"
  note still = referential_stability [OF wellFormed_scenarioA refl refl, of 2 0 "[(1, 1)]"]
  note moved = referential_stability [OF wellFormed_scenarioA refl refl, of 1 1 "[]"]
  have s: "?s = initialState scenarioA" by (simp add: frames_def)
  have "0 < 5 * pi / (288 * sqrt 2)" by simp
  then have "progressIncrement scenarioA (1, 1) (initialState scenarioA) earth \<noteq> 0"
    using scenarioA_increment by simp
  then have "content ?s' (name earth) \<noteq> content ?s (name earth)"
    unfolding s by (auto simp: progressIncrement_def prevOrZero_def)
  then have "\<exists>p \<in> set scenarioA. content ?s' (name p) \<noteq> content ?s (name p)"
    using earth_facts(1) by blast
  with moved have "current ?s' = nextAddr ?s" by blast
  with still wellFormed_scenarioA show ?thesis by simp
qed

subsection \<open>The detail view\<close>

text \<open>
  Claim C8, as the code has it. In \<open>DETAIL_VIEW\<close> with a selection whose position
  resolves, a frame enables the controls, points them at the body and sets the minimal and
  maximal distance to the radius times the factors of the body's class: 1.5 and 10 for the
  star, 1.5 and 15 for a moon, 1.2 and 5 for Jupiter, 1.2 and 3 for any other planet. The
  factors of a moon are larger than those of a default planet, not tighter.
\<close>

theorem detail_view_limits:
  assumes "cameraState w = DETAIL_VIEW" and "getPlanetPosition (Some sel) reg = Some pos"
    and "w' = updateCameraState (Some sel) reg w"
  shows "enabled (controls w') \<and> target (controls w') = pos \<and> cameraState w' = DETAIL_VIEW \<and>
         minDistance (controls w') = selRadius sel * MIN_FACTOR (distanceConfig sel) \<and>
         maxDistance (controls w') = Finite (selRadius sel * MAX_FACTOR (distanceConfig sel)) \<and>
         distanceConfig sel =
           (if selIsSun sel then \<lparr>MIN_FACTOR = 1.5, MAX_FACTOR = 10\<rparr>
            else if selIsMoon sel then \<lparr>MIN_FACTOR = 1.5, MAX_FACTOR = 15\<rparr>
            else if selName sel = ''Jupiter'' then \<lparr>MIN_FACTOR = 1.2, MAX_FACTOR = 5\<rparr>
            else \<lparr>MIN_FACTOR = 1.2, MAX_FACTOR = 3\<rparr>)"
proof -
  have "w' = caseDETAIL_VIEW (Some sel) reg w"
    using assms(1,3) by (simp add: updateCameraState_def)
  then show ?thesis
    using assms(1) distanceConfig_values [of sel]
    by (simp add: caseDETAIL_VIEW_resolved [OF assms(2)])
qed

theorem detail_view_limits_witness:
  "cameraState (worldAt DETAIL_VIEW) = DETAIL_VIEW \<and>
   getPlanetPosition (Some (PlanetSelection earth)) earthRegistry = Some (Vector3 8 0 0) \<and>
   enabled (controls (updateCameraState (Some (PlanetSelection earth)) earthRegistry (worldAt DETAIL_VIEW))) \<and>
   minDistance (controls (updateCameraState (Some (PlanetSelection earth)) earthRegistry (worldAt DETAIL_VIEW)))
     = 6 / 5 \<and>
   maxDistance (controls (updateCameraState (Some (PlanetSelection earth)) earthRegistry (worldAt DETAIL_VIEW)))
     = Finite 3"
proof -
  have st: "cameraState (worldAt DETAIL_VIEW) = DETAIL_VIEW"
    by (simp add: worldAt_def)
  have cls: "\<not> selIsSun (PlanetSelection earth)" "\<not> selIsMoon (PlanetSelection earth)"
    "selName (PlanetSelection earth) \<noteq> ''Jupiter''" "selRadius (PlanetSelection earth) = 1"
    by (simp_all add: selIsSun_def selIsMoon_def selName_def selRadius_def earth_def)
  from detail_view_limits [OF st earth_resolved refl] cls st earth_resolved
  show ?thesis by simp
qed

text \<open>
  A moon and a default planet of the same radius 1: the moon's limits are 1.5 and 15, the
  planet's 1.2 and 3; the moon's maximal factor is not the smaller one and its interval is
  not the narrower one.
\<close>

theorem moon_factors_counterexample:
  "selRadius moonSel = selRadius (PlanetSelection earth) \<and>
   minDistance (controls (updateCameraState (Some moonSel) earthRegistry (worldAt DETAIL_VIEW))) = 3 / 2 \<and>
   maxDistance (controls (updateCameraState (Some moonSel) earthRegistry (worldAt DETAIL_VIEW))) = Finite 15 \<and>
   minDistance (controls (updateCameraState (Some (PlanetSelection earth)) earthRegistry (worldAt DETAIL_VIEW)))
     = 6 / 5 \<and>
   maxDistance (controls (updateCameraState (Some (PlanetSelection earth)) earthRegistry (worldAt DETAIL_VIEW)))
     = Finite 3 \<and>
   \<not> MAX_FACTOR (distanceConfig moonSel) \<le> MAX_FACTOR (distanceConfig (PlanetSelection earth)) \<and>
   \<not> MAX_FACTOR (distanceConfig moonSel) - MIN_FACTOR (distanceConfig moonSel)
       \<le> MAX_FACTOR (distanceConfig (PlanetSelection earth)) - MIN_FACTOR (distanceConfig (PlanetSelection earth))"
proof -
  have cls: "\<not> selIsSun (PlanetSelection earth)" "\<not> selIsMoon (PlanetSelection earth)"
    "selName (PlanetSelection earth) \<noteq> ''Jupiter''" "selRadius (PlanetSelection earth) = 1"
    "\<not> selIsSun moonSel" "selIsMoon moonSel" "selRadius moonSel = 1"
    by (simp_all add: selIsSun_def selIsMoon_def selName_def selRadius_def earth_def moonSel_def)
  have step: "updateCameraState sel earthRegistry (worldAt DETAIL_VIEW) =
      caseDETAIL_VIEW sel earthRegistry (worldAt DETAIL_VIEW)" for sel
    by (simp add: updateCameraState_def worldAt_def)
  show ?thesis
    using cls
    by (simp add: step caseDETAIL_VIEW_resolved [OF moon_resolved]
        caseDETAIL_VIEW_resolved [OF earth_resolved] distanceConfig_values)
qed

subsection \<open>Determinism\<close>

text \<open>
  Claim C9. The progress map after a sequence of frames is determined by the progress map
  before it and the sequence of \<open>(deltaTime, speedFactor)\<close> pairs: two runs that agree on
  both end with equal progress maps and equal positions for every body, whatever their
  clock readings and whatever objects hold their maps.
\<close>

theorem orbit_determinism:
  assumes "content s1 = content s2"
    and "deltas (lastElapsedTime s1) ticks1 = deltas (lastElapsedTime s2) ticks2"
  shows "content (frames planets ticks1 s1) = content (frames planets ticks2 s2) \<and>
         planetPosition p (prevOrZero (content (frames planets ticks1 s1)) (name p)) =
         planetPosition p (prevOrZero (content (frames planets ticks2 s2)) (name p))"
  using content_frames_deltas [OF assms] by simp

theorem orbit_determinism_witness:
  "content (initialState scenarioA) = content ((initialState scenarioA)\<lparr>lastElapsedTime := 10\<rparr>) \<and>
   deltas (lastElapsedTime (initialState scenarioA)) [(1, 1), (3, 2)] =
   deltas (lastElapsedTime ((initialState scenarioA)\<lparr>lastElapsedTime := 10\<rparr>)) [(11, 1), (13, 2)] \<and>
   content (frames scenarioA [(1, 1), (3, 2)] (initialState scenarioA)) =
   content (frames scenarioA [(11, 1), (13, 2)] ((initialState scenarioA)\<lparr>lastElapsedTime := 10\<rparr>))"
proof -
  have c: "content (initialState scenarioA) = content ((initialState scenarioA)\<lparr>lastElapsedTime := 10\<rparr>)"
    by (simp add: content_def)
  have d: "deltas (lastElapsedTime (initialState scenarioA)) [(1, 1), (3, 2)] =
      deltas (lastElapsedTime ((initialState scenarioA)\<lparr>lastElapsedTime := 10\<rparr>)) [(11, 1), (13, 2)]"
    by (simp add: initialState_def)
  from orbit_determinism [OF c d, of scenarioA earth] c d show ?thesis by blast
qed

subsection \<open>The speed control\<close>

text \<open>
  Claim C10. While the camera state is \<open>ZOOMING_IN\<close> or \<open>DETAIL_VIEW\<close> the cycle
  action of the speed control changes nothing, whatever the speed-control context's
  setter does.
\<close>

theorem cycle_speed_disabled:
  assumes "cameraState (camera app) = ZOOMING_IN \<or> cameraState (camera app) = DETAIL_VIEW"
  shows "handleCycleSpeed speedFactor setSpeedFactor app = app"
  using assms by (auto simp: handleCycleSpeed_def isDisabled_def)

theorem cycle_speed_disabled_witness:
  "cameraState (camera (appAt ZOOMING_IN (Some (PlanetSelection earth)))) = ZOOMING_IN \<and>
   handleCycleSpeed id (\<lambda>v s. v) (appAt ZOOMING_IN (Some (PlanetSelection earth)))
     = appAt ZOOMING_IN (Some (PlanetSelection earth)) \<and>
   speedControl (handleCycleSpeed id (\<lambda>v s. v) (appAt DETAIL_VIEW (Some (PlanetSelection earth)))) = 1"
proof -
  have z: "cameraState (camera (appAt ZOOMING_IN (Some (PlanetSelection earth)))) = ZOOMING_IN"
    and d: "cameraState (camera (appAt DETAIL_VIEW (Some (PlanetSelection earth)))) = DETAIL_VIEW"
    by (simp_all add: appAt_def worldAt_def)
  have "handleCycleSpeed id (\<lambda>v s. v) (appAt ZOOMING_IN (Some (PlanetSelection earth)))
      = appAt ZOOMING_IN (Some (PlanetSelection earth))"
    using z by (intro cycle_speed_disabled) simp
  moreover have "handleCycleSpeed id (\<lambda>v s. v) (appAt DETAIL_VIEW (Some (PlanetSelection earth)))
      = appAt DETAIL_VIEW (Some (PlanetSelection earth))"
    using d by (intro cycle_speed_disabled) simp
  ultimately show ?thesis using z by (simp add: appAt_def)
qed

end
